theory Spec2Isabelle
  imports Complex_Main "HOL-Library.AList"
begin

section \<open>Python values, exceptions and the observable trace\<close>

text \<open>
  The program handles decoded JSON documents and Python dictionaries. One datatype covers
  both: \<open>PNone\<close> is \<open>None\<close> (JSON null), \<open>PDict\<close> is a dictionary with string keys, kept as
  an association list in insertion order.
\<close>

datatype pyval =
    PNone
  | PBool bool
  | PNum rat
  | PStr string
  | PList "pyval list"
  | PDict "(string \<times> pyval) list"

text \<open>
  The exception classes the program raises or tells apart. \<open>RequestException\<close> stands for
  \<open>requests.exceptions.RequestException\<close> and its subclasses, \<open>BadRequest\<close> for the warehouse
  client's class, \<open>OtherException\<close> for \<open>Exception(msg)\<close> and for every class the program does
  not distinguish, \<open>RetryError\<close> for tenacity's wrapper around the last failed attempt.
  \<open>InvalidTokenError\<close> and \<open>RetryableError\<close> carry the upstream error message that the source
  interpolates into their text.
\<close>

datatype exn =
    RequestException
  | ValidationError string
  | InvalidTokenError pyval
  | RetryableError pyval
  | KeyError
  | AttributeError
  | TypeError
  | IndexError
  | BadRequest
  | OtherException string
  | RetryError exn

datatype level = ERROR | WARNING

text \<open>
  A request to the ERP is identified by its endpoint and the value interpolated into the
  URL (the token is fixed for the invocation); a warehouse query by its SQL text, that is by
  the function that builds it and the value interpolated into it.
\<close>

datatype url =
    GerarNotaFiscalPedido pyval
  | NotaFiscalObterLink pyval
  | ContatosPesquisa pyval

datatype query =
    ContatosEmailQuery pyval
  | PurchaseDetailsQuery pyval
  | DailyCheckinsQuery pyval
  | QuarterSpendQuery pyval
  | LifetimeSpendQuery pyval

record message =
  from_email :: string
  to_emails :: pyval
  template_id :: string
  dynamic_template_data :: "(string \<times> pyval) list"
  asm_group_id :: int
  asm_groups_to_display :: "int list"

text \<open>
  What an invocation does to the outside world, in order: ERP requests, warehouse queries,
  submissions to the email provider, sleeps, and the log records of level ERROR and WARNING
  (INFO and DEBUG records decide nothing and are left out). A log record is its level and
  the constant part of its message, without the values the source interpolates.
\<close>

datatype event =
    HttpGet url
  | BqQuery query
  | SgSend message
  | Sleep rat
  | Log level string

type_synonym trace = "event list"

type_synonym row = "(string \<times> pyval) list"

text \<open>
  The external collaborators. Each answers a request in view of everything that happened
  before it: an ERP request yields the decoded body or the exception of
  \<open>requests.get\<close> / \<open>raise_for_status\<close> / \<open>json\<close>; a query yields its rows or an exception;
  a send yields the provider's status code or an exception.
\<close>

record env =
  http_get :: "trace \<Rightarrow> url \<Rightarrow> exn + pyval"
  bq_query :: "trace \<Rightarrow> query \<Rightarrow> exn + row list"
  sg_send :: "trace \<Rightarrow> message \<Rightarrow> exn + int"

type_synonym 'a M = "trace \<Rightarrow> (exn + 'a) \<times> trace"

definition returnM :: "'a \<Rightarrow> 'a M" where
  "returnM x = (\<lambda>tr. (Inr x, tr))"

definition raiseM :: "exn \<Rightarrow> 'a M" where
  "raiseM e = (\<lambda>tr. (Inl e, tr))"

definition liftE :: "exn + 'a \<Rightarrow> 'a M" where
  "liftE r = (\<lambda>tr. (r, tr))"

definition bindM :: "'a M \<Rightarrow> ('a \<Rightarrow> 'b M) \<Rightarrow> 'b M" where
  "bindM m f = (\<lambda>tr. case m tr of (Inl e, tr') \<Rightarrow> (Inl e, tr') | (Inr x, tr') \<Rightarrow> f x tr')"

definition thenM :: "'a M \<Rightarrow> 'b M \<Rightarrow> 'b M" where
  "thenM m k = bindM m (\<lambda>_. k)"

definition catchM :: "'a M \<Rightarrow> (exn \<Rightarrow> 'a M) \<Rightarrow> 'a M" where
  "catchM m h = (\<lambda>tr. case m tr of (Inl e, tr') \<Rightarrow> h e tr' | (Inr x, tr') \<Rightarrow> (Inr x, tr'))"

definition emit :: "event \<Rightarrow> unit M" where
  "emit ev = (\<lambda>tr. (Inr (), tr @ [ev]))"

definition bindE :: "exn + 'a \<Rightarrow> ('a \<Rightarrow> exn + 'b) \<Rightarrow> exn + 'b" where
  "bindE r f = (case r of Inl e \<Rightarrow> Inl e | Inr x \<Rightarrow> f x)"

subsection \<open>Python operations on values\<close>

fun truthy :: "pyval \<Rightarrow> bool" where
  "truthy PNone = False"
| "truthy (PBool b) = b"
| "truthy (PNum n) = (n \<noteq> 0)"
| "truthy (PStr s) = (s \<noteq> [])"
| "truthy (PList xs) = (xs \<noteq> [])"
| "truthy (PDict kvs) = (kvs \<noteq> [])"

text \<open>\<open>obj.get(key, default)\<close>: only a dictionary has the method.\<close>

fun py_get :: "pyval \<Rightarrow> string \<Rightarrow> pyval \<Rightarrow> exn + pyval" where
  "py_get (PDict kvs) k d = Inr (case map_of kvs k of None \<Rightarrow> d | Some v \<Rightarrow> v)"
| "py_get _ k d = Inl AttributeError"

fun str_contains :: "string \<Rightarrow> string \<Rightarrow> bool" where
  "str_contains [] sub = (sub = [])"
| "str_contains (c # cs) sub = (take (length sub) (c # cs) = sub \<or> str_contains cs sub)"

text \<open>\<open>'key' in obj\<close>: key membership, element membership, substring test, or TypeError.\<close>

fun py_in :: "string \<Rightarrow> pyval \<Rightarrow> exn + bool" where
  "py_in k (PDict kvs) = Inr (map_of kvs k \<noteq> None)"
| "py_in k (PList xs) = Inr (PStr k \<in> set xs)"
| "py_in k (PStr s) = Inr (str_contains s k)"
| "py_in k _ = Inl TypeError"

text \<open>\<open>obj['key']\<close>.\<close>

fun py_item :: "pyval \<Rightarrow> string \<Rightarrow> exn + pyval" where
  "py_item (PDict kvs) k = (case map_of kvs k of None \<Rightarrow> Inl KeyError | Some v \<Rightarrow> Inr v)"
| "py_item _ k = Inl TypeError"

text \<open>\<open>obj[0]\<close>.\<close>

fun py_index0 :: "pyval \<Rightarrow> exn + pyval" where
  "py_index0 (PList []) = Inl IndexError"
| "py_index0 (PList (x # xs)) = Inr x"
| "py_index0 (PStr []) = Inl IndexError"
| "py_index0 (PStr (c # cs)) = Inr (PStr [c])"
| "py_index0 (PDict kvs) = Inl KeyError"
| "py_index0 _ = Inl TypeError"

text \<open>\<open>row.column\<close> on a result row.\<close>

definition row_attr :: "row \<Rightarrow> string \<Rightarrow> exn + pyval" where
  "row_attr r c = (case map_of r c of None \<Rightarrow> Inl AttributeError | Some v \<Rightarrow> Inr v)"

section \<open>The retry decorator\<close>

text \<open>
  \<open>tenacity.wait_exponential(multiplier, min, max)\<close> with the default base 2: the wait after
  attempt \<open>n\<close> (counted from 1) is \<open>multiplier * 2 ** (n - 1)\<close>, clamped into \<open>[max(0, min), max]\<close>.
\<close>

definition wait_exponential :: "rat \<Rightarrow> rat \<Rightarrow> rat \<Rightarrow> nat \<Rightarrow> rat" where
  "wait_exponential multiplier mn mx attempt_number =
     max (max 0 mn) (min (multiplier * 2 ^ (attempt_number - 1)) mx)"

text \<open>
  \<open>tenacity.retry(wait, stop_after_attempt(n), retry)\<close>: run the attempt; a result is
  returned; an exception the predicate rejects is re-raised as it is; otherwise, once the
  attempt number has reached \<open>n\<close>, RetryError is raised, and before that the decorator
  sleeps and runs the next attempt.
\<close>

function retry :: "(nat \<Rightarrow> rat) \<Rightarrow> nat \<Rightarrow> (exn \<Rightarrow> bool) \<Rightarrow> 'a M \<Rightarrow> nat \<Rightarrow> 'a M" where
  "retry wait stop_after_attempt retry_if f attempt_number tr =
     (case f tr of
        (Inr x, tr1) \<Rightarrow> (Inr x, tr1)
      | (Inl e, tr1) \<Rightarrow>
          if \<not> retry_if e then (Inl e, tr1)
          else if attempt_number \<ge> stop_after_attempt then (Inl (RetryError e), tr1)
          else retry wait stop_after_attempt retry_if f (Suc attempt_number)
                 (tr1 @ [Sleep (wait attempt_number)]))"
  by pat_completeness auto
termination
  by (relation "measure (\<lambda>(w, n, p, f, a, tr). n - a)") auto

section \<open>External API gateway\<close>

text \<open>The source's expression \<open>json_data.get('retorno', {}).get(key, default)\<close>.\<close>

definition retorno_field :: "pyval \<Rightarrow> string \<Rightarrow> pyval \<Rightarrow> exn + pyval" where
  "retorno_field json_data k d =
     bindE (py_get json_data ''retorno'' (PDict [])) (\<lambda>r. py_get r k d)"

text \<open>The source's expression \<open>erros[0]['erro'] if erros else "Unknown error"\<close>.\<close>

definition erro_message :: "pyval \<Rightarrow> exn + pyval" where
  "erro_message erros =
     (if truthy erros then bindE (py_index0 erros) (\<lambda>x. py_item x ''erro'')
      else Inr (PStr ''Unknown error''))"

definition validate_json_payload :: "pyval \<Rightarrow> exn + unit" where
  "validate_json_payload json_data =
     bindE (retorno_field json_data ''status_processamento'' PNone)
       (\<lambda>status_processamento.
          if status_processamento = PStr ''3'' then Inr ()
          else if status_processamento = PStr ''2'' then
            Inl (ValidationError ''Invalid query parameter.'')
          else if status_processamento = PStr ''1'' then
            bindE (retorno_field json_data ''codigo_erro'' (PStr [])) (\<lambda>codigo_erro.
            bindE (retorno_field json_data ''erros'' (PList [])) (\<lambda>erros.
            bindE (erro_message erros) (\<lambda>msg.
              if codigo_erro = PStr ''1''
              then Inl (InvalidTokenError msg)
              else Inl (RetryableError msg))))
          else Inr ())"

definition requests_get :: "env \<Rightarrow> url \<Rightarrow> pyval M" where
  "requests_get env u = (\<lambda>tr. (http_get env tr u, tr @ [HttpGet u]))"

text \<open>The three \<open>except\<close> clauses of \<open>make_api_call\<close> differ in the record they log.\<close>

fun api_error_log :: "exn \<Rightarrow> string" where
  "api_error_log RequestException = ''API request failed''"
| "api_error_log (ValidationError m) = ''Payload validation failed''"
| "api_error_log _ = ''Unexpected error''"

definition make_api_call_body :: "env \<Rightarrow> url \<Rightarrow> pyval M" where
  "make_api_call_body env u =
     catchM
       (bindM (requests_get env u) (\<lambda>json_data.
          thenM (liftE (validate_json_payload json_data)) (returnM json_data)))
       (\<lambda>e. thenM (emit (Log ERROR (api_error_log e))) (raiseM e))"

fun api_retry_if :: "exn \<Rightarrow> bool" where
  "api_retry_if RequestException = True"
| "api_retry_if (RetryableError m) = True"
| "api_retry_if _ = False"

definition make_api_call :: "env \<Rightarrow> url \<Rightarrow> pyval M" where
  "make_api_call env u =
     retry (wait_exponential (5/2) 30 (375/2)) 4 api_retry_if (make_api_call_body env u) 1"

section \<open>Fiscal document orchestrator\<close>

text \<open>Python's short-circuit \<open>and\<close> on conditions that may raise.\<close>

definition py_and :: "exn + bool \<Rightarrow> exn + bool \<Rightarrow> exn + bool" where
  "py_and a b = bindE a (\<lambda>x. if x then b else Inr False)"

definition generate_nfce :: "env \<Rightarrow> pyval \<Rightarrow> pyval M" where
  "generate_nfce env dados_id =
     bindM (make_api_call env (GerarNotaFiscalPedido dados_id)) (\<lambda>response.
       bindM (liftE
           (py_and (py_in ''retorno'' response)
             (py_and (bindE (py_item response ''retorno'') (py_in ''registros''))
                (bindE (bindE (py_item response ''retorno'') (\<lambda>r. py_item r ''registros''))
                   (py_in ''registro''))))) (\<lambda>ok.
         if ok then
           liftE (bindE (bindE (bindE (py_item response ''retorno'')
                    (\<lambda>r. py_item r ''registros''))
                    (\<lambda>r. py_item r ''registro''))
                    (\<lambda>r. py_item r ''idNotaFiscal''))
         else raiseM (ValidationError
                ''NFCe generation response is missing expected fields.'')))"

definition get_nota_fiscal_link :: "env \<Rightarrow> pyval \<Rightarrow> pyval M" where
  "get_nota_fiscal_link env idNotafiscal =
     bindM (make_api_call env (NotaFiscalObterLink idNotafiscal)) (\<lambda>response.
       bindM (liftE
           (py_and (py_in ''retorno'' response)
              (bindE (py_item response ''retorno'') (py_in ''link_nfe'')))) (\<lambda>ok.
         if ok then
           liftE (bindE (py_item response ''retorno'') (\<lambda>r. py_item r ''link_nfe''))
         else
           thenM (emit (Log ERROR ''Nota Fiscal link response is missing expected fields.''))
             (raiseM (ValidationError
                ''Nota Fiscal link response is missing expected fields.''))))"

section \<open>Customer lookup\<close>

definition get_client_email_from_tinyerp :: "env \<Rightarrow> pyval \<Rightarrow> pyval M" where
  "get_client_email_from_tinyerp env cliente_cpfCnpj =
     bindM (make_api_call env (ContatosPesquisa cliente_cpfCnpj)) (\<lambda>response.
       bindM (liftE (bindE (py_get response ''retorno'' (PDict []))
                       (\<lambda>r. py_get r ''contatos'' (PList [])))) (\<lambda>contatos.
         if truthy contatos then
           bindM (liftE (bindE (bindE (py_index0 contatos)
                                  (\<lambda>c. py_get c ''contato'' (PDict [])))
                           (\<lambda>contato. py_get contato ''email'' PNone))) (\<lambda>email.
             if truthy email then returnM email
             else thenM (emit (Log WARNING ''No email found in TinyERP'')) (returnM PNone))
         else
           thenM (emit (Log WARNING ''No contact information found in TinyERP''))
             (returnM PNone)))"

definition bq_run :: "env \<Rightarrow> query \<Rightarrow> row list M" where
  "bq_run env q = (\<lambda>tr. (bq_query env tr q, tr @ [BqQuery q]))"

text \<open>The loop over the result rows: the first row whose email is truthy ends it.\<close>

fun first_email :: "row list \<Rightarrow> exn + pyval option" where
  "first_email [] = Inr None"
| "first_email (r # rs) =
     (case row_attr r ''email'' of
        Inl e \<Rightarrow> Inl e
      | Inr v \<Rightarrow> if truthy v then Inr (Some v) else first_email rs)"

definition get_client_email :: "env \<Rightarrow> pyval \<Rightarrow> pyval M" where
  "get_client_email env cliente_cpfCnpj =
     catchM
       (bindM (bq_run env (ContatosEmailQuery cliente_cpfCnpj)) (\<lambda>results.
          bindM (liftE (first_email results)) (\<lambda>found.
            case found of
              Some email \<Rightarrow> returnM email
            | None \<Rightarrow>
                thenM (emit (Log WARNING ''No email found in BigQuery. Falling back to TinyERP.''))
                  (get_client_email_from_tinyerp env cliente_cpfCnpj))))
       (\<lambda>e. thenM (emit (Log ERROR
                (if e = BadRequest then ''BigQuery BadRequest Error while fetching email''
                 else ''Error fetching email'')))
              (raiseM e))"

section \<open>Analytics aggregator\<close>

type_synonym dict = "(string \<times> pyval) list"

definition dict_get :: "dict \<Rightarrow> string \<Rightarrow> pyval \<Rightarrow> pyval" where
  "dict_get d k dflt = (case map_of d k of None \<Rightarrow> dflt | Some v \<Rightarrow> v)"

definition dict_update :: "dict \<Rightarrow> dict \<Rightarrow> dict" where
  "dict_update d other = fold (\<lambda>(k, v). AList.update k v) other d"

definition item_detail :: "row \<Rightarrow> exn + pyval" where
  "item_detail r =
     bindE (row_attr r ''item_name'') (\<lambda>n.
     bindE (row_attr r ''item_quantity'') (\<lambda>q.
     bindE (row_attr r ''item_price'') (\<lambda>p.
     bindE (row_attr r ''total_item_price'') (\<lambda>t.
       Inr (PDict [(''item_name'', n), (''item_quantity'', q),
                   (''item_price'', p), (''total_item_price'', t)])))))"

definition summary_fields :: "row \<Rightarrow> exn + dict" where
  "summary_fields r =
     bindE (row_attr r ''total_discount'') (\<lambda>d.
     bindE (row_attr r ''total_paid'') (\<lambda>p.
     bindE (row_attr r ''payment_method'') (\<lambda>m.
     bindE (row_attr r ''sub_total'') (\<lambda>s.
       Inr [(''total_discount'', d), (''total_paid'', p),
            (''payment_method'', m), (''sub_total'', s)]))))"

text \<open>The loop over the rows of the items query, with its two accumulators.\<close>

fun purchase_rows :: "row list \<Rightarrow> pyval list \<Rightarrow> dict \<Rightarrow> exn + (pyval list \<times> dict)" where
  "purchase_rows [] items purchase_summary = Inr (items, purchase_summary)"
| "purchase_rows (r # rs) items purchase_summary =
     (case item_detail r of
        Inl e \<Rightarrow> Inl e
      | Inr d \<Rightarrow>
          (case summary_fields r of
             Inl e \<Rightarrow> Inl e
           | Inr s \<Rightarrow> purchase_rows rs (items @ [d]) (dict_update purchase_summary s)))"

definition get_purchase_details_body :: "env \<Rightarrow> pyval \<Rightarrow> dict M" where
  "get_purchase_details_body env dados_id =
     catchM
       (bindM (bq_run env (PurchaseDetailsQuery dados_id)) (\<lambda>results.
          bindM (liftE (purchase_rows results [] [])) (\<lambda>(items, purchase_summary).
            if items = [] then
              thenM (emit (Log WARNING ''No purchase details found. Data might be delayed or ID is incorrect.''))
                (raiseM (OtherException ''Purchase details not found after retries.''))
            else returnM (AList.update ''items'' (PList items) purchase_summary))))
       (\<lambda>e. thenM (emit (Log ERROR
                (if e = BadRequest
                 then ''BigQuery BadRequest Error while fetching purchase details''
                 else ''Unexpected error while fetching purchase details'')))
              (raiseM e))"

definition get_purchase_details :: "env \<Rightarrow> pyval \<Rightarrow> dict M" where
  "get_purchase_details env dados_id =
     retry (wait_exponential 30 30 90) 4 (\<lambda>e. True) (get_purchase_details_body env dados_id) 1"

definition get_daily_checkins :: "env \<Rightarrow> pyval \<Rightarrow> dict M" where
  "get_daily_checkins env cliente_cpfCnpj =
     bindM
       (catchM
          (bindM (bq_run env (DailyCheckinsQuery cliente_cpfCnpj)) (\<lambda>results.
             liftE (case results of
                      [] \<Rightarrow> Inr (PNum 0)
                    | r # rs \<Rightarrow> if r \<noteq> [] then row_attr r ''daily_checkins'' else Inr (PNum 0))))
          (\<lambda>e. thenM (emit (Log ERROR
                   (if e = BadRequest
                    then ''BigQuery BadRequest Error while fetching daily check-ins''
                    else ''Error fetching daily check-ins'')))
                 (returnM (PNum 0))))
       (\<lambda>daily_checkins. returnM [(''daily_checkins'', daily_checkins)])"

definition get_quarter_spend :: "env \<Rightarrow> pyval \<Rightarrow> dict M" where
  "get_quarter_spend env cliente_cpfCnpj =
     bindM
       (catchM
          (bindM (bq_run env (QuarterSpendQuery cliente_cpfCnpj)) (\<lambda>results.
             liftE (case results of
                      [] \<Rightarrow> Inr (PNum 0)
                    | r # rs \<Rightarrow> row_attr r ''quarter_spend'')))
          (\<lambda>e. thenM (emit (Log ERROR
                   (if e = BadRequest
                    then ''BigQuery BadRequest Error while fetching quarter spend''
                    else ''Error fetching quarter spend'')))
                 (returnM (PNum 0))))
       (\<lambda>quarter_spend. returnM [(''quarter_spend'', quarter_spend)])"

fun first_total_spend :: "row list \<Rightarrow> exn + pyval" where
  "first_total_spend [] = Inr (PNum 0)"
| "first_total_spend (r # rs) =
     (case row_attr r ''total_spend'' of
        Inl e \<Rightarrow> Inl e
      | Inr v \<Rightarrow> if v \<noteq> PNone then Inr v else first_total_spend rs)"

text \<open>
  Once \<open>query_job.result()\<close> has returned, the job is DONE without errors, so the record
  "Query job didn't finish successfully" is not logged.
\<close>

definition get_lifetime_spend :: "env \<Rightarrow> pyval \<Rightarrow> dict M" where
  "get_lifetime_spend env cliente_cpfCnpj =
     bindM
       (catchM
          (bindM (bq_run env (LifetimeSpendQuery cliente_cpfCnpj)) (\<lambda>rows.
             if rows \<noteq> [] then liftE (first_total_spend rows)
             else thenM (emit (Log WARNING ''Query returned no rows. Setting total_spend to 0.''))
                    (returnM (PNum 0))))
          (\<lambda>e. thenM (emit (Log ERROR
                   (if e = BadRequest
                    then ''BigQuery BadRequest Error while fetching lifetime spend''
                    else ''Unexpected error while fetching lifetime spend'')))
                 (returnM (PNum 0))))
       (\<lambda>total_spend. returnM [(''total_spend'', total_spend)])"

definition aggregate_email_data ::
  "env \<Rightarrow> pyval \<Rightarrow> pyval \<Rightarrow> pyval \<Rightarrow> pyval \<Rightarrow> pyval \<Rightarrow> dict M" where
  "aggregate_email_data env cliente_cpfCnpj dados_id client_email nota_fiscal_url client_name =
     catchM
       (bindM (get_purchase_details env dados_id) (\<lambda>items.
        bindM (get_daily_checkins env cliente_cpfCnpj) (\<lambda>daily_checkins.
        bindM (get_quarter_spend env cliente_cpfCnpj) (\<lambda>quarter_spend.
        bindM (get_lifetime_spend env cliente_cpfCnpj) (\<lambda>lifetime_spend.
          let email_data =
            [(''client_email'', client_email),
             (''client_name'', client_name),
             (''dados_id'', dados_id),
             (''items'', dict_get items ''items'' (PList [])),
             (''sub_total'', dict_get items ''sub_total'' (PStr ''0.00'')),
             (''total_discount'', dict_get items ''total_discount'' (PStr ''0.00'')),
             (''total_paid'', dict_get items ''total_paid'' (PStr ''0.00'')),
             (''payment_method'', dict_get items ''payment_method'' (PStr ''N/A'')),
             (''daily_checkins'', dict_get daily_checkins ''daily_checkins'' (PNum 0)),
             (''quarter_spend'', dict_get quarter_spend ''quarter_spend'' (PStr ''0.00'')),
             (''lifetime_spend'', dict_get lifetime_spend ''total_spend'' (PStr ''0.00''))]
          in returnM (if nota_fiscal_url \<noteq> PNone
                      then AList.update ''nota_fiscal_url'' nota_fiscal_url email_data
                      else email_data))))))
       (\<lambda>e. thenM (emit (Log ERROR ''Error aggregating email data'')) (raiseM e))"

section \<open>Notification dispatcher\<close>

definition TEST_MODE :: bool where
  "TEST_MODE = True"

definition TEST_EMAIL :: string where
  "TEST_EMAIL = ''rodrigo@brunale.com''"

definition FROM_EMAIL :: string where
  "FROM_EMAIL = ''sac@emporiozingaro.com''"

definition TEMPLATE_ID :: string where
  "TEMPLATE_ID = ''d-f5543523eceb42bc9eec353aebc19aef''"

definition build_message :: "dict \<Rightarrow> pyval \<Rightarrow> message" where
  "build_message email_data recipient_email =
     \<lparr>from_email = FROM_EMAIL, to_emails = recipient_email, template_id = TEMPLATE_ID,
      dynamic_template_data = email_data, asm_group_id = 23816,
      asm_groups_to_display = [23816, 23831, 23817]\<rparr>"

text \<open>
  One submission: the part of the \<open>try\<close> block after the recipient check. A status outside
  \<open>range(200, 300)\<close> is logged and turned into an exception.
\<close>

definition send_attempt :: "env \<Rightarrow> dict \<Rightarrow> pyval \<Rightarrow> unit M" where
  "send_attempt env email_data recipient_email = (\<lambda>tr.
     let msg = build_message email_data recipient_email in
     case sg_send env tr msg of
       Inl e \<Rightarrow> (Inl e, tr @ [SgSend msg])
     | Inr status_code \<Rightarrow>
         if 200 \<le> status_code \<and> status_code < 300 then (Inr (), tr @ [SgSend msg])
         else (Inl (OtherException ''Email sending failed''),
               tr @ [SgSend msg, Log ERROR ''Failed to send email on attempt'']))"

function send_email :: "env \<Rightarrow> dict \<Rightarrow> int \<Rightarrow> unit M" where
  "send_email env email_data retry_count tr =
     (let recipient_email =
            (if TEST_MODE then PStr TEST_EMAIL else dict_get email_data ''client_email'' PNone)
      in if \<not> truthy recipient_email then
           (Inr (), tr @ [Log WARNING ''Email not sent. No email address for client.''])
         else
           (case send_attempt env email_data recipient_email tr of
              (Inr u, tr1) \<Rightarrow> (Inr (), tr1)
            | (Inl e, tr1) \<Rightarrow>
                if retry_count < 2 then
                  send_email env email_data (retry_count + 1)
                    (tr1 @ [Log WARNING ''Retrying to send email'',
                            Sleep (2 powi (retry_count + 1) * 30)])
                else
                  (Inr (), tr1 @ [Log ERROR ''Max retry attempts reached for sending email''])))"
  by pat_completeness auto
termination
  by (relation "measure (\<lambda>(env, d, rc, tr). nat (2 - rc))") auto

section \<open>The pipeline\<close>

definition pipeline :: "env \<Rightarrow> pyval \<Rightarrow> unit M" where
  "pipeline env payload =
     bindM (liftE (py_in ''dados'' payload)) (\<lambda>has_dados.
       if \<not> has_dados then emit (Log ERROR ''Payload missing 'dados' key.'')
       else
         bindM (liftE (bindE (py_item payload ''dados'') (\<lambda>d. py_get d ''id'' PNone)))
           (\<lambda>dados_id.
         if \<not> truthy dados_id then emit (Log ERROR ''Missing 'dados.id' in payload.'')
         else
           bindM (catchM (generate_nfce env dados_id)
                    (\<lambda>e. thenM (emit (Log ERROR ''Error during NFCe generation''))
                           (returnM PNone))) (\<lambda>nfce_id.
           bindM (liftE (bindE (py_item payload ''dados'')
                           (\<lambda>d. py_get d ''cliente'' (PDict [])))) (\<lambda>cliente_info.
           bindM (liftE (py_get cliente_info ''nome'' (PStr ''Unknown Client'')))
             (\<lambda>cliente_nome.
           bindM (liftE (py_get cliente_info ''cpfCnpj'' PNone)) (\<lambda>cliente_cpfCnpj.
             if cliente_cpfCnpj = PNone then
               emit (Log WARNING ''NFCe was emitted, but CPF/CNPJ is missing. No email will be sent.'')
             else
               bindM (get_client_email env cliente_cpfCnpj) (\<lambda>client_email.
                 if \<not> truthy client_email then
                   emit (Log WARNING ''No email found. NFCe was emitted, but no email will be sent.'')
                 else
                   bindM (if truthy nfce_id then
                            catchM (get_nota_fiscal_link env nfce_id)
                              (\<lambda>e. thenM (emit (Log ERROR ''Error fetching NFCe link''))
                                     (returnM PNone))
                          else returnM PNone) (\<lambda>nota_fiscal_url.
                   bindM (aggregate_email_data env cliente_cpfCnpj dados_id client_email
                            nota_fiscal_url cliente_nome) (\<lambda>email_data.
                     send_email env email_data 0)))))))))"

text \<open>
  \<open>process_webhook_payload\<close> is the pipeline inside its outer \<open>try\<close>: KeyError and every
  other exception are logged and not re-raised.
\<close>

definition process_webhook_payload :: "env \<Rightarrow> pyval \<Rightarrow> unit M" where
  "process_webhook_payload env payload =
     catchM (pipeline env payload)
       (\<lambda>e. emit (Log ERROR (if e = KeyError then ''Key error in payload processing''
                             else ''Unexpected error in payload processing'')))"

section \<open>Vocabulary of the statements\<close>

text \<open>The value found in a document under a path of keys, if every step is a dictionary.\<close>

fun lookup_path :: "string list \<Rightarrow> pyval \<Rightarrow> pyval option" where
  "lookup_path [] v = Some v"
| "lookup_path (k # ks) (PDict kvs) =
     (case map_of kvs k of None \<Rightarrow> None | Some v \<Rightarrow> lookup_path ks v)"
| "lookup_path (k # ks) v = None"

fun is_log :: "event \<Rightarrow> bool" where
  "is_log (Log l s) = True"
| "is_log ev = False"

fun is_send :: "event \<Rightarrow> bool" where
  "is_send (SgSend m) = True"
| "is_send ev = False"

fun is_sleep :: "event \<Rightarrow> bool" where
  "is_sleep (Sleep d) = True"
| "is_sleep ev = False"

fun is_link_request :: "event \<Rightarrow> bool" where
  "is_link_request (HttpGet (NotaFiscalObterLink i)) = True"
| "is_link_request ev = False"

text \<open>The trace without its log records: requests, queries, submissions and sleeps.\<close>

definition actions :: "trace \<Rightarrow> trace" where
  "actions tr = filter (\<lambda>ev. \<not> is_log ev) tr"

text \<open>A computation only appends to the trace, and every event it appends satisfies \<open>P\<close>.\<close>

definition emits_only :: "(event \<Rightarrow> bool) \<Rightarrow> 'a M \<Rightarrow> bool" where
  "emits_only P m = (\<forall>tr. \<exists>evs. snd (m tr) = tr @ evs \<and> (\<forall>ev\<in>set evs. P ev))"

text \<open>The same, for a computation started on one given trace.\<close>

definition emits_from :: "trace \<Rightarrow> (event \<Rightarrow> bool) \<Rightarrow> 'a M \<Rightarrow> bool" where
  "emits_from tr P m = (\<exists>evs. snd (m tr) = tr @ evs \<and> (\<forall>ev\<in>set evs. P ev))"

text \<open>
  An event that involves no fiscal-document link: not a request for the link, and not a
  message whose template data has the key \<open>nota_fiscal_url\<close>.
\<close>

fun without_fiscal_link :: "event \<Rightarrow> bool" where
  "without_fiscal_link (HttpGet (NotaFiscalObterLink i)) = False"
| "without_fiscal_link (SgSend m) = (map_of (dynamic_template_data m) ''nota_fiscal_url'' = None)"
| "without_fiscal_link ev = True"

text \<open>
  The email of the first contact in the reply of the ERP's contact search, when the reply
  has a first contact and that contact has a non-empty email.
\<close>

definition first_contact_email :: "pyval \<Rightarrow> pyval option" where
  "first_contact_email response =
     (case retorno_field response ''contatos'' (PList []) of
        Inr (PList (c # cs)) \<Rightarrow>
          (case lookup_path [''contato'', ''email''] c of
             Some e \<Rightarrow> if truthy e then Some e else None
           | None \<Rightarrow> None)
      | _ \<Rightarrow> None)"

subsection \<open>Example environments and documents\<close>

text \<open>
  An ERP that answers every request with the same body, a warehouse without rows and an
  email provider that accepts every message.
\<close>

definition env_body :: "pyval \<Rightarrow> env" where
  "env_body b =
     \<lparr>http_get = (\<lambda>tr u. Inr b), bq_query = (\<lambda>tr q. Inr []), sg_send = (\<lambda>tr m. Inr 202)\<rparr>"

definition erp_body :: "pyval \<Rightarrow> pyval \<Rightarrow> pyval \<Rightarrow> pyval" where
  "erp_body status code erros =
     PDict [(''retorno'', PDict [(''status_processamento'', status),
                                 (''codigo_erro'', code), (''erros'', erros)])]"

definition payload_without_id :: pyval where
  "payload_without_id =
     PDict [(''dados'', PDict [(''cliente'',
        PDict [(''nome'', PStr ''Ana''), (''cpfCnpj'', PStr ''111'')])])]"

text \<open>A provider that answers every submission with the same status code.\<close>

definition env_send_status :: "int \<Rightarrow> env" where
  "env_send_status code =
     \<lparr>http_get = (\<lambda>tr u. Inl RequestException), bq_query = (\<lambda>tr q. Inr []),
      sg_send = (\<lambda>tr m. Inr code)\<rparr>"

definition contact_search :: url where
  "contact_search = ContatosPesquisa (PStr ''111'')"

definition body_token_invalid :: pyval where
  "body_token_invalid =
     erp_body (PStr ''1'') (PStr ''1'') (PList [PDict [(''erro'', PStr ''token invalido'')]])"

definition body_erros_malformed :: pyval where
  "body_erros_malformed = erp_body (PStr ''1'') (PStr ''1'') (PList [PDict []])"

definition body_api_blocked :: pyval where
  "body_api_blocked =
     erp_body (PStr ''1'') (PStr ''6'') (PList [PDict [(''erro'', PStr ''API bloqueada'')]])"

definition body_registro_without_id :: pyval where
  "body_registro_without_id =
     PDict [(''retorno'', PDict [(''status_processamento'', PStr ''3''),
        (''registros'', PDict [(''registro'', PDict [(''sequencia'', PStr ''1'')])])])]"

text \<open>
  The end-to-end scenario of the specification: the payload of customer Ana, an ERP and a
  warehouse that answer every request the same way whatever happened before, and a
  provider that answers every submission with one status code.
\<close>

definition env_world :: "(url \<Rightarrow> exn + pyval) \<Rightarrow> (query \<Rightarrow> exn + row list) \<Rightarrow> int \<Rightarrow> env" where
  "env_world erp warehouse code =
     \<lparr>http_get = (\<lambda>tr. erp), bq_query = (\<lambda>tr. warehouse), sg_send = (\<lambda>tr m. Inr code)\<rparr>"

fun erp_ok :: "url \<Rightarrow> exn + pyval" where
  "erp_ok (GerarNotaFiscalPedido i) =
     Inr (PDict [(''retorno'', PDict [(''status_processamento'', PStr ''3''),
        (''registros'', PDict [(''registro'', PDict [(''idNotaFiscal'', PStr ''55'')])])])])"
| "erp_ok (NotaFiscalObterLink i) =
     Inr (PDict [(''retorno'', PDict [(''status_processamento'', PStr ''3''),
        (''link_nfe'', PStr ''http://x/55'')])])"
| "erp_ok (ContatosPesquisa c) =
     Inr (PDict [(''retorno'', PDict [(''status_processamento'', PStr ''3''),
        (''contatos'', PList [PDict [(''contato'', PDict [(''email'', PStr ''ana@erp.com'')])]])])])"

definition item_row :: row where
  "item_row =
     [(''item_id'', PStr ''7''), (''item_name'', PStr ''Cafe''), (''item_quantity'', PNum 2),
      (''item_price'', PNum 10), (''total_item_price'', PNum 20),
      (''total_discount'', PStr ''0''), (''total_paid'', PNum 20),
      (''payment_method'', PStr ''pix''), (''sub_total'', PNum 20)]"

fun warehouse_ok :: "query \<Rightarrow> exn + row list" where
  "warehouse_ok (ContatosEmailQuery c) = Inr [[(''email'', PStr ''ana@x.com'')]]"
| "warehouse_ok (PurchaseDetailsQuery i) = Inr [item_row]"
| "warehouse_ok (DailyCheckinsQuery c) = Inr [[(''daily_checkins'', PNum 3)]]"
| "warehouse_ok (QuarterSpendQuery c) = Inr [[(''quarter_spend'', PNum 100)]]"
| "warehouse_ok (LifetimeSpendQuery c) = Inr [[(''total_spend'', PNum 500)]]"

definition payload_ana :: pyval where
  "payload_ana =
     PDict [(''dados'', PDict [(''id'', PStr ''123''),
        (''cliente'', PDict [(''nome'', PStr ''Ana''), (''cpfCnpj'', PStr ''111'')])])]"

definition warehouse_loyalty_down :: "query \<Rightarrow> exn + row list" where
  "warehouse_loyalty_down =
     warehouse_ok (DailyCheckinsQuery (PStr ''111'') := Inl BadRequest,
                   QuarterSpendQuery (PStr ''111'') := Inl BadRequest,
                   LifetimeSpendQuery (PStr ''111'') := Inl (OtherException ''timeout''))"

text \<open>Variants of the scenario, and the email payload and trace it leads to.\<close>

definition erp_nfce_rejected :: "url \<Rightarrow> exn + pyval" where
  "erp_nfce_rejected =
     erp_ok (GerarNotaFiscalPedido (PStr ''123'') := Inr (erp_body (PStr ''2'') PNone PNone))"

definition email_data_ana :: dict where
  "email_data_ana =
     [(''client_email'', PStr ''ana@x.com''), (''client_name'', PStr ''Ana''),
      (''dados_id'', PStr ''123''),
      (''items'', PList [PDict [(''item_name'', PStr ''Cafe''), (''item_quantity'', PNum 2),
          (''item_price'', PNum 10), (''total_item_price'', PNum 20)]]),
      (''sub_total'', PNum 20), (''total_discount'', PStr ''0''), (''total_paid'', PNum 20),
      (''payment_method'', PStr ''pix''), (''daily_checkins'', PNum 3),
      (''quarter_spend'', PNum 100), (''lifetime_spend'', PNum 500)]"

definition warehouse_no_contact :: "query \<Rightarrow> exn + row list" where
  "warehouse_no_contact = warehouse_ok (ContatosEmailQuery (PStr ''111'') := Inr [])"

definition erp_no_contact :: "url \<Rightarrow> exn + pyval" where
  "erp_no_contact =
     erp_ok (ContatosPesquisa (PStr ''111'') :=
       Inr (PDict [(''retorno'', PDict [(''status_processamento'', PStr ''3''),
                                         (''contatos'', PList [])])]))"

definition trace_ana :: trace where
  "trace_ana =
     [HttpGet (GerarNotaFiscalPedido (PStr ''123'')), Log ERROR ''Payload validation failed'',
      Log ERROR ''Error during NFCe generation'', BqQuery (ContatosEmailQuery (PStr ''111'')),
      BqQuery (PurchaseDetailsQuery (PStr ''123'')), BqQuery (DailyCheckinsQuery (PStr ''111'')),
      BqQuery (QuarterSpendQuery (PStr ''111'')), BqQuery (LifetimeSpendQuery (PStr ''111''))]"

definition erp_contact_without_email :: "url \<Rightarrow> exn + pyval" where
  "erp_contact_without_email =
     erp_ok (ContatosPesquisa (PStr ''111'') :=
       Inr (PDict [(''retorno'', PDict [(''status_processamento'', PStr ''3''),
          (''contatos'', PList [PDict [(''contato'', PDict [(''nome'', PStr ''Ana'')])]])])]))"

section \<open>Basic facts\<close>

lemmas monad_defs = returnM_def raiseM_def liftE_def bindM_def thenM_def catchM_def emit_def

lemma emits_onlyI:
  assumes "\<And>tr. \<exists>evs. snd (m tr) = tr @ evs \<and> (\<forall>ev\<in>set evs. P ev)"
  shows "emits_only P m"
  using assms by (simp add: emits_only_def)

lemma emits_onlyD:
  assumes "emits_only P m"
  obtains evs where "snd (m tr) = tr @ evs" "\<forall>ev\<in>set evs. P ev"
  using assms unfolding emits_only_def by blast

lemma emits_only_mono:
  assumes "emits_only P m" "\<And>ev. P ev \<Longrightarrow> Q ev"
  shows "emits_only Q m"
  using assms unfolding emits_only_def by blast

lemma emits_only_returnM: "emits_only P (returnM x)"
  by (simp add: emits_only_def returnM_def)

lemma emits_only_raiseM: "emits_only P (raiseM e)"
  by (simp add: emits_only_def raiseM_def)

lemma emits_only_liftE: "emits_only P (liftE r)"
  by (simp add: emits_only_def liftE_def)

lemma emits_only_emit: "P ev \<Longrightarrow> emits_only P (emit ev)"
  by (simp add: emits_only_def emit_def)

lemma emits_only_bindM:
  assumes m: "emits_only P m"
    and f: "\<And>x tr. fst (m tr) = Inr x \<Longrightarrow> emits_only P (f x)"
  shows "emits_only P (bindM m f)"
proof (rule emits_onlyI)
  fix tr
  obtain evs where evs: "snd (m tr) = tr @ evs" "\<forall>ev\<in>set evs. P ev"
    using m by (rule emits_onlyD)
  then obtain r where mtr: "m tr = (r, tr @ evs)"
    by (cases "m tr") simp
  show "\<exists>evs. snd (bindM m f tr) = tr @ evs \<and> (\<forall>ev\<in>set evs. P ev)"
  proof (cases r)
    case (Inl e)
    then show ?thesis using mtr evs(2) by (auto simp: bindM_def)
  next
    case (Inr x)
    then have "emits_only P (f x)"
      using f [of tr x] mtr by simp
    then obtain evs' where evs': "snd (f x (tr @ evs)) = (tr @ evs) @ evs'" "\<forall>ev\<in>set evs'. P ev"
      by (rule emits_onlyD)
    have "snd (bindM m f tr) = tr @ (evs @ evs')"
      using Inr mtr evs'(1) by (simp add: bindM_def)
    moreover have "\<forall>ev\<in>set (evs @ evs'). P ev"
      using evs(2) evs'(2) by auto
    ultimately show ?thesis by blast
  qed
qed

lemma emits_only_thenM:
  assumes "emits_only P m" "emits_only P k"
  shows "emits_only P (thenM m k)"
  unfolding thenM_def using assms by (intro emits_only_bindM)

lemma emits_only_catchM:
  assumes m: "emits_only P m"
    and h: "\<And>e tr. fst (m tr) = Inl e \<Longrightarrow> emits_only P (h e)"
  shows "emits_only P (catchM m h)"
proof (rule emits_onlyI)
  fix tr
  obtain evs where evs: "snd (m tr) = tr @ evs" "\<forall>ev\<in>set evs. P ev"
    using m by (rule emits_onlyD)
  then obtain r where mtr: "m tr = (r, tr @ evs)"
    by (cases "m tr") simp
  show "\<exists>evs. snd (catchM m h tr) = tr @ evs \<and> (\<forall>ev\<in>set evs. P ev)"
  proof (cases r)
    case (Inr x)
    then show ?thesis using mtr evs(2) by (auto simp: catchM_def)
  next
    case (Inl e)
    then have "emits_only P (h e)"
      using h [of tr e] mtr by simp
    then obtain evs' where evs': "snd (h e (tr @ evs)) = (tr @ evs) @ evs'" "\<forall>ev\<in>set evs'. P ev"
      by (rule emits_onlyD)
    have "snd (catchM m h tr) = tr @ (evs @ evs')"
      using Inl mtr evs'(1) by (simp add: catchM_def)
    moreover have "\<forall>ev\<in>set (evs @ evs'). P ev"
      using evs(2) evs'(2) by auto
    ultimately show ?thesis by blast
  qed
qed

lemma retry_frame:
  assumes "emits_only P f" and "\<And>d. P (Sleep d)"
  shows "\<exists>evs. snd (retry w n p f a tr) = tr @ evs \<and> (\<forall>ev\<in>set evs. P ev)"
  using assms
proof (induction w n p f a tr rule: retry.induct)
  case (1 w n p f a tr)
  obtain evs where evs: "snd (f tr) = tr @ evs" "\<forall>ev\<in>set evs. P ev"
    using "1.prems"(1) by (rule emits_onlyD)
  then obtain r where ftr: "f tr = (r, tr @ evs)"
    by (cases "f tr") simp
  show ?case
  proof (cases r)
    case (Inr x)
    then show ?thesis using ftr evs(2) by auto
  next
    case (Inl e)
    show ?thesis
    proof (cases "p e \<and> \<not> n \<le> a")
      case False
      then show ?thesis using Inl ftr evs(2) by auto
    next
      case True
      have "\<exists>evs'. snd (retry w n p f (Suc a) ((tr @ evs) @ [Sleep (w a)])) =
               ((tr @ evs) @ [Sleep (w a)]) @ evs' \<and> (\<forall>ev\<in>set evs'. P ev)"
        using "1.IH" [OF ftr [symmetric] Inl] True "1.prems"
        by simp
      then obtain evs' where evs':
        "snd (retry w n p f (Suc a) ((tr @ evs) @ [Sleep (w a)])) =
           ((tr @ evs) @ [Sleep (w a)]) @ evs'" "\<forall>ev\<in>set evs'. P ev"
        by blast
      have "snd (retry w n p f a tr) = tr @ (evs @ Sleep (w a) # evs')"
        using Inl ftr True evs'(1) by simp
      moreover have "\<forall>ev\<in>set (evs @ Sleep (w a) # evs'). P ev"
        using evs(2) evs'(2) "1.prems"(2) by auto
      ultimately show ?thesis by blast
    qed
  qed
qed

lemma emits_only_retry:
  assumes "emits_only P f" and "\<And>d. P (Sleep d)"
  shows "emits_only P (retry w n p f a)"
  using retry_frame [OF assms] by (simp add: emits_only_def)

lemma emits_only_requests_get: "P (HttpGet u) \<Longrightarrow> emits_only P (requests_get env u)"
  by (simp add: emits_only_def requests_get_def)

lemma emits_only_bq_run: "P (BqQuery q) \<Longrightarrow> emits_only P (bq_run env q)"
  by (simp add: emits_only_def bq_run_def)

lemma emits_only_if:
  assumes "c \<Longrightarrow> emits_only P a" "\<not> c \<Longrightarrow> emits_only P b"
  shows "emits_only P (if c then a else b)"
  using assms by simp

lemma emits_only_case_option:
  assumes "x = None \<Longrightarrow> emits_only P a" "\<And>y. x = Some y \<Longrightarrow> emits_only P (b y)"
  shows "emits_only P (case x of None \<Rightarrow> a | Some y \<Rightarrow> b y)"
  using assms by (cases x) simp_all

lemma emits_only_case_prod:
  assumes "\<And>a b. x = (a, b) \<Longrightarrow> emits_only P (f a b)"
  shows "emits_only P (case x of (a, b) \<Rightarrow> f a b)"
  using assms by (cases x) simp

lemmas emits_only_intros = emits_only_if emits_only_case_option emits_only_case_prod emits_only_returnM emits_only_raiseM emits_only_liftE
  emits_only_emit emits_only_bindM emits_only_thenM emits_only_catchM emits_only_retry
  emits_only_requests_get emits_only_bq_run

lemma make_api_call_frame:
  assumes "P (HttpGet u)" "\<And>d. P (Sleep d)" "\<And>l s. P (Log l s)"
  shows "emits_only P (make_api_call env u)"
  unfolding make_api_call_def make_api_call_body_def
  by (intro emits_only_intros assms)

lemma generate_nfce_frame:
  assumes "P (HttpGet (GerarNotaFiscalPedido i))" "\<And>d. P (Sleep d)" "\<And>l s. P (Log l s)"
  shows "emits_only P (generate_nfce env i)"
  unfolding generate_nfce_def
  by (intro emits_only_intros make_api_call_frame assms)

lemma get_nota_fiscal_link_frame:
  assumes "P (HttpGet (NotaFiscalObterLink i))" "\<And>d. P (Sleep d)" "\<And>l s. P (Log l s)"
  shows "emits_only P (get_nota_fiscal_link env i)"
  unfolding get_nota_fiscal_link_def
  by (intro emits_only_intros make_api_call_frame assms)

lemma get_client_email_from_tinyerp_frame:
  assumes "P (HttpGet (ContatosPesquisa c))" "\<And>d. P (Sleep d)" "\<And>l s. P (Log l s)"
  shows "emits_only P (get_client_email_from_tinyerp env c)"
  unfolding get_client_email_from_tinyerp_def
  by (intro emits_only_intros make_api_call_frame assms)

lemma get_client_email_frame:
  assumes "P (BqQuery (ContatosEmailQuery c))" "P (HttpGet (ContatosPesquisa c))"
    "\<And>d. P (Sleep d)" "\<And>l s. P (Log l s)"
  shows "emits_only P (get_client_email env c)"
  unfolding get_client_email_def
  by (intro emits_only_intros get_client_email_from_tinyerp_frame assms)

subsection \<open>The gateway\<close>

lemma validate_other:
  assumes "retorno_field body ''status_processamento'' PNone = Inr s"
    and "s \<noteq> PStr ''1''" "s \<noteq> PStr ''2''" "s \<noteq> PStr ''3''"
  shows "validate_json_payload body = Inr ()"
  using assms by (simp add: validate_json_payload_def bindE_def)

lemma validate_3:
  assumes "retorno_field body ''status_processamento'' PNone = Inr (PStr ''3'')"
  shows "validate_json_payload body = Inr ()"
  using assms by (simp add: validate_json_payload_def bindE_def)

lemma validate_2:
  assumes "retorno_field body ''status_processamento'' PNone = Inr (PStr ''2'')"
  shows "validate_json_payload body = Inl (ValidationError ''Invalid query parameter.'')"
  using assms by (simp add: validate_json_payload_def bindE_def)

lemma validate_1:
  assumes "retorno_field body ''status_processamento'' PNone = Inr (PStr ''1'')"
    and "retorno_field body ''codigo_erro'' (PStr []) = Inr c"
    and "retorno_field body ''erros'' (PList []) = Inr erros"
    and "erro_message erros = Inr m"
  shows "validate_json_payload body =
           Inl (if c = PStr ''1'' then InvalidTokenError m else RetryableError m)"
  using assms by (simp add: validate_json_payload_def bindE_def)

lemma api_ok:
  assumes "http_get env tr u = Inr body" "validate_json_payload body = Inr ()"
  shows "make_api_call env u tr = (Inr body, tr @ [HttpGet u])"
  using assms by (simp add: make_api_call_def make_api_call_body_def requests_get_def monad_defs)

lemma api_body_invalid:
  assumes "http_get env tr u = Inr body" "validate_json_payload body = Inl e"
  shows "make_api_call_body env u tr = (Inl e, tr @ [HttpGet u, Log ERROR (api_error_log e)])"
  using assms by (simp add: make_api_call_body_def requests_get_def monad_defs)

lemma api_no_retry:
  assumes "make_api_call_body env u tr = (Inl e, tr1)" "\<not> api_retry_if e"
  shows "make_api_call env u tr = (Inl e, tr1)"
  using assms by (simp add: make_api_call_def)

subsection \<open>Documents\<close>

lemma lookup_path2:
  assumes "lookup_path [a, b] v = Some x"
  obtains kvs dk where "v = PDict kvs" "map_of kvs a = Some (PDict dk)" "map_of dk b = Some x"
proof -
  from assms obtain kvs where v: "v = PDict kvs" by (cases v) auto
  with assms obtain d where d: "map_of kvs a = Some d" "lookup_path [b] d = Some x"
    by (auto split: option.splits)
  then obtain dk where "d = PDict dk" "map_of dk b = Some x"
    by (cases d) (auto split: option.splits)
  with v d that show thesis by blast
qed

subsection \<open>Retries of the gateway\<close>

lemma api_exhausted:
  assumes "\<And>tr'. \<exists>m. make_api_call_body env u tr' =
             (Inl (RetryableError m), tr' @ [HttpGet u, Log ERROR ''Unexpected error''])"
  shows "\<exists>m. make_api_call env u tr =
           (Inl (RetryError (RetryableError m)),
            tr @ [HttpGet u, Log ERROR ''Unexpected error'', Sleep (wait_exponential (5/2) 30 (375/2) 1),
                  HttpGet u, Log ERROR ''Unexpected error'', Sleep (wait_exponential (5/2) 30 (375/2) 2),
                  HttpGet u, Log ERROR ''Unexpected error'', Sleep (wait_exponential (5/2) 30 (375/2) 3),
                  HttpGet u, Log ERROR ''Unexpected error''])"
proof -
  obtain mf where mf: "\<And>tr'. make_api_call_body env u tr' =
      (Inl (RetryableError (mf tr')), tr' @ [HttpGet u, Log ERROR ''Unexpected error''])"
    using assms by metis
  show ?thesis
    unfolding make_api_call_def by (simp add: mf numeral_2_eq_2 numeral_3_eq_3)
qed

lemma wait_exponential_bounds:
  assumes "0 \<le> mn" "mn \<le> mx"
  shows "mn \<le> wait_exponential k mn mx n \<and> wait_exponential k mn mx n \<le> mx"
  using assms by (simp add: wait_exponential_def)

lemma api_waits: 
  "wait_exponential (5/2) 30 (375/2) 1 = 30"
  "wait_exponential (5/2) 30 (375/2) 2 = 30"
  "wait_exponential (5/2) 30 (375/2) 3 = 30"
  by (simp_all add: wait_exponential_def)

subsection \<open>The dispatcher\<close>

declare send_email.simps [simp del]

lemma send_attempt_frame:
  assumes "P (SgSend (build_message d r))" "\<And>l s. P (Log l s)"
  shows "emits_only P (send_attempt env d r)"
  using assms
  by (auto simp: emits_only_def send_attempt_def Let_def split: sum.splits)

lemma send_email_result:
  assumes "\<And>r. P (SgSend (build_message d r))" "\<And>x. P (Sleep x)" "\<And>l s. P (Log l s)"
  shows "\<exists>evs. send_email env d rc tr = (Inr (), tr @ evs) \<and> (\<forall>ev\<in>set evs. P ev)"
  using assms
proof (induction env d rc tr rule: send_email.induct)
  case (1 env d rc tr)
  define r where "r = (if TEST_MODE then PStr TEST_EMAIL else dict_get d ''client_email'' PNone)"
  show ?case
  proof (cases "truthy r")
    case False
    then show ?thesis using "1.prems"
      by (subst send_email.simps) (simp add: Let_def r_def)
  next
    case True
    obtain evs where evs: "snd (send_attempt env d r tr) = tr @ evs" "\<forall>ev\<in>set evs. P ev"
      using send_attempt_frame [of P d r env] "1.prems" emits_onlyD by blast
    then obtain res where att: "send_attempt env d r tr = (res, tr @ evs)"
      by (cases "send_attempt env d r tr") simp
    show ?thesis
    proof (cases res)
      case (Inr u)
      then show ?thesis using att True evs
        by (subst send_email.simps) (simp add: Let_def r_def)
    next
      case (Inl e)
      show ?thesis
      proof (cases "rc < 2")
        case False
        then show ?thesis using att True evs Inl "1.prems"
          by (subst send_email.simps) (simp add: Let_def r_def)
      next
        case rc: True
        let ?tr2 = "(tr @ evs) @ [Log WARNING ''Retrying to send email'', Sleep (2 powi (rc + 1) * 30)]"
        have "\<exists>evs'. send_email env d (rc + 1) ?tr2 = (Inr (), ?tr2 @ evs') \<and> (\<forall>ev\<in>set evs'. P ev)"
          using "1.IH" [OF r_def _ att [symmetric] Inl rc] True "1.prems"
          by simp
        then obtain evs' where evs':
          "send_email env d (rc + 1) ?tr2 = (Inr (), ?tr2 @ evs')" "\<forall>ev\<in>set evs'. P ev"
          by blast
        have "send_email env d rc tr = send_email env d (rc + 1) ?tr2"
          using att True Inl rc by (subst send_email.simps) (simp add: Let_def r_def)
        then have "send_email env d rc tr = (Inr (),
             tr @ (evs @ [Log WARNING ''Retrying to send email'', Sleep (2 powi (rc + 1) * 30)] @ evs'))"
          using evs' by simp
        moreover have "\<forall>ev\<in>set (evs @ [Log WARNING ''Retrying to send email'',
                         Sleep (2 powi (rc + 1) * 30)] @ evs'). P ev"
          using evs evs' "1.prems" by auto
        ultimately show ?thesis by blast
      qed
    qed
  qed
qed

lemma send_email_never_raises: "fst (send_email env d rc tr) = Inr ()"
  using send_email_result [of "\<lambda>ev. True" d env rc tr] by auto

lemma send_email_frame:
  assumes "\<And>r. P (SgSend (build_message d r))" "\<And>x. P (Sleep x)" "\<And>l s. P (Log l s)"
  shows "emits_only P (send_email env d rc)"
  using send_email_result [OF assms] by (rule_tac emits_onlyI) (metis snd_conv)

lemma send_attempt_fails:
  assumes "\<And>s. sg_send env tr (build_message d r) = Inr s \<Longrightarrow> s < 200 \<or> 300 \<le> s"
  shows "\<exists>e logs. send_attempt env d r tr = (Inl e, tr @ SgSend (build_message d r) # logs) \<and>
           (\<forall>ev\<in>set logs. is_log ev)"
proof (cases "sg_send env tr (build_message d r)")
  case (Inl e)
  then show ?thesis by (simp add: send_attempt_def Let_def)
next
  case (Inr s)
  with assms have "\<not> (200 \<le> s \<and> s < 300)" by fastforce
  with Inr show ?thesis by (auto simp add: send_attempt_def Let_def)
qed

subsection \<open>The aggregator\<close>

lemma purchase_body_empty:
  assumes "bq_query env tr (PurchaseDetailsQuery i) = Inr []"
  shows "get_purchase_details_body env i tr =
     (Inl (OtherException ''Purchase details not found after retries.''),
      tr @ [BqQuery (PurchaseDetailsQuery i),
            Log WARNING ''No purchase details found. Data might be delayed or ID is incorrect.'',
            Log ERROR ''Unexpected error while fetching purchase details''])"
  using assms by (simp add: get_purchase_details_body_def bq_run_def monad_defs)

lemma purchase_details_empty:
  assumes "\<And>tr'. bq_query env tr' (PurchaseDetailsQuery i) = Inr []"
  shows "\<exists>evs. get_purchase_details env i tr =
           (Inl (RetryError (OtherException ''Purchase details not found after retries.'')),
            tr @ evs) \<and>
         actions evs = [BqQuery (PurchaseDetailsQuery i), Sleep 30,
                        BqQuery (PurchaseDetailsQuery i), Sleep 60,
                        BqQuery (PurchaseDetailsQuery i), Sleep 90,
                        BqQuery (PurchaseDetailsQuery i)]"
  unfolding get_purchase_details_def
  by (simp add: purchase_body_empty [OF assms] wait_exponential_def actions_def)

lemma get_purchase_details_body_frame:
  assumes "P (BqQuery (PurchaseDetailsQuery i))" "\<And>l s. P (Log l s)"
  shows "emits_only P (get_purchase_details_body env i)"
  unfolding get_purchase_details_body_def
  by (intro emits_only_intros assms)

lemma get_purchase_details_frame:
  assumes "P (BqQuery (PurchaseDetailsQuery i))" "\<And>d. P (Sleep d)" "\<And>l s. P (Log l s)"
  shows "emits_only P (get_purchase_details env i)"
  unfolding get_purchase_details_def
  by (intro emits_only_intros get_purchase_details_body_frame assms)

lemma get_daily_checkins_frame:
  assumes "P (BqQuery (DailyCheckinsQuery c))" "\<And>l s. P (Log l s)"
  shows "emits_only P (get_daily_checkins env c)"
  unfolding get_daily_checkins_def
  by (intro emits_only_intros assms)

lemma get_quarter_spend_frame:
  assumes "P (BqQuery (QuarterSpendQuery c))" "\<And>l s. P (Log l s)"
  shows "emits_only P (get_quarter_spend env c)"
  unfolding get_quarter_spend_def
  by (intro emits_only_intros assms)

lemma get_lifetime_spend_frame:
  assumes "P (BqQuery (LifetimeSpendQuery c))" "\<And>l s. P (Log l s)"
  shows "emits_only P (get_lifetime_spend env c)"
  unfolding get_lifetime_spend_def
  by (intro emits_only_intros assms)

lemma aggregate_email_data_frame:
  assumes "\<And>q. P (BqQuery q)" "\<And>d. P (Sleep d)" "\<And>l s. P (Log l s)"
  shows "emits_only P (aggregate_email_data env c i e u n)"
  unfolding aggregate_email_data_def Let_def
  by (intro emits_only_intros get_purchase_details_frame get_daily_checkins_frame
        get_quarter_spend_frame get_lifetime_spend_frame assms)

lemma aggregate_fails:
  assumes "fst (get_purchase_details env i tr) = Inl e"
  shows "fst (aggregate_email_data env c i em u n tr) = Inl e"
  using assms
  by (cases "get_purchase_details env i tr")
     (simp add: aggregate_email_data_def monad_defs)

lemma process_webhook_payload_never_raises:
  "fst (process_webhook_payload env payload tr) = Inr ()"
  by (cases "pipeline env payload tr")
     (auto simp: process_webhook_payload_def catchM_def emit_def split: sum.splits)

lemma retry_ok:
  assumes "retry w n p f a tr = (Inr x, tr1)"
  shows "\<exists>tr' tr''. f tr' = (Inr x, tr'')"
  using assms
proof (induction w n p f a tr rule: retry.induct)
  case (1 w n p f a tr)
  obtain r t where ftr: "f tr = (r, t)" by (cases "f tr")
  show ?case
  proof (cases r)
    case (Inr y)
    then show ?thesis using ftr "1.prems" by auto
  next
    case (Inl e)
    show ?thesis
    proof (cases "p e \<and> \<not> n \<le> a")
      case False
      then show ?thesis using Inl ftr "1.prems" by (auto split: if_splits)
    next
      case True
      then have "retry w n p f (Suc a) (t @ [Sleep (w a)]) = (Inr x, tr1)"
        using Inl ftr "1.prems" by simp
      from "1.IH" [OF ftr [symmetric] Inl _ _ this] True show ?thesis by simp
    qed
  qed
qed

lemma purchase_rows_items:
  assumes "purchase_rows rs items s = Inr (items', s')"
  shows "items = [] \<and> rs = [] \<or> items' \<noteq> []"
  using assms
  by (induction rs arbitrary: items s) (auto split: sum.splits)

lemma purchase_body_items:
  assumes "get_purchase_details_body env i tr = (Inr d, tr1)"
  shows "\<exists>its. map_of d ''items'' = Some (PList its) \<and> its \<noteq> []"
proof -
  obtain rs where rs: "bq_query env tr (PurchaseDetailsQuery i) = Inr rs"
    using assms
    by (cases "bq_query env tr (PurchaseDetailsQuery i)")
       (auto simp: get_purchase_details_body_def bq_run_def monad_defs)
  obtain its s where ps: "purchase_rows rs [] [] = Inr (its, s)"
    using assms rs
    by (cases "purchase_rows rs [] []")
       (auto simp: get_purchase_details_body_def bq_run_def monad_defs)
  have "its \<noteq> []" "d = AList.update ''items'' (PList its) s"
    using assms rs ps
    by (auto simp: get_purchase_details_body_def bq_run_def monad_defs split: if_splits)
  then show ?thesis by (simp add: update_conv')
qed

lemma purchase_details_items:
  assumes "get_purchase_details env i tr = (Inr d, tr1)"
  shows "\<exists>its. map_of d ''items'' = Some (PList its) \<and> its \<noteq> []"
  using retry_ok [OF assms [unfolded get_purchase_details_def]] purchase_body_items by blast

lemma daily_checkins_result:
  "\<exists>v tr1. get_daily_checkins env c tr = (Inr [(''daily_checkins'', v)], tr1) \<and>
     ((\<exists>e. bq_query env tr (DailyCheckinsQuery c) = Inl e) \<longrightarrow> v = PNum 0)"
  by (cases "bq_query env tr (DailyCheckinsQuery c)")
     (auto simp: get_daily_checkins_def bq_run_def monad_defs row_attr_def
        split: list.splits option.splits)

lemma quarter_spend_result:
  "\<exists>v tr1. get_quarter_spend env c tr = (Inr [(''quarter_spend'', v)], tr1) \<and>
     ((\<exists>e. bq_query env tr (QuarterSpendQuery c) = Inl e) \<longrightarrow> v = PNum 0)"
  by (cases "bq_query env tr (QuarterSpendQuery c)")
     (auto simp: get_quarter_spend_def bq_run_def monad_defs row_attr_def
        split: list.splits option.splits)

lemma lifetime_spend_result:
  "\<exists>v tr1. get_lifetime_spend env c tr = (Inr [(''total_spend'', v)], tr1) \<and>
     ((\<exists>e. bq_query env tr (LifetimeSpendQuery c) = Inl e) \<longrightarrow> v = PNum 0)"
proof (cases "bq_query env tr (LifetimeSpendQuery c)")
  case (Inl e)
  then show ?thesis by (simp add: get_lifetime_spend_def bq_run_def monad_defs)
next
  case (Inr rows)
  then show ?thesis
    by (cases "first_total_spend rows")
       (auto simp: get_lifetime_spend_def bq_run_def monad_defs)
qed

subsection \<open>The pipeline\<close>

lemma lookup_path_id:
  assumes "lookup_path [''dados'', ''id''] payload = Some i"
  shows "py_in ''dados'' payload = Inr True"
    and "bindE (py_item payload ''dados'') (\<lambda>d. py_get d ''id'' PNone) = Inr i"
  using assms by (auto elim!: lookup_path2 simp: bindE_def)

lemma aggregate_without_items:
  assumes "\<And>tr'. bq_query env tr' (PurchaseDetailsQuery i) = Inr []"
  shows "fst (aggregate_email_data env c i em u n tr) =
           Inl (RetryError (OtherException ''Purchase details not found after retries.''))"
proof -
  obtain evs where "get_purchase_details env i tr =
      (Inl (RetryError (OtherException ''Purchase details not found after retries.'')), tr @ evs)"
    using purchase_details_empty [OF assms] by blast
  then show ?thesis by (simp add: aggregate_fails)
qed

lemma pipeline_frame_no_items:
  assumes q: "\<And>tr'. bq_query env tr' (PurchaseDetailsQuery i) = Inr []"
    and p: "lookup_path [''dados'', ''id''] payload = Some i"
  shows "emits_only (\<lambda>ev. \<not> is_send ev) (pipeline env payload)"
  unfolding pipeline_def
  apply (intro emits_only_intros generate_nfce_frame get_client_email_frame
           get_nota_fiscal_link_frame aggregate_email_data_frame)
  apply simp_all
  using aggregate_without_items [OF q] lookup_path_id [OF p]
  apply (simp add: liftE_def)
  done

lemma process_webhook_payload_frame:
  assumes "emits_only P (pipeline env payload)" "\<And>l s. P (Log l s)"
  shows "emits_only P (process_webhook_payload env payload)"
  unfolding process_webhook_payload_def
  by (intro emits_only_intros assms)

lemma process_webhook_payload_result:
  assumes "emits_only P (pipeline env payload)" "\<And>l s. P (Log l s)"
  shows "\<exists>evs. process_webhook_payload env payload tr = (Inr (), tr @ evs) \<and>
           (\<forall>ev\<in>set evs. P ev)"
proof -
  obtain evs where "snd (process_webhook_payload env payload tr) = tr @ evs" "\<forall>ev\<in>set evs. P ev"
    using process_webhook_payload_frame [OF assms] emits_onlyD by blast
  then show ?thesis
    using process_webhook_payload_never_raises [of env payload tr]
    by (cases "process_webhook_payload env payload tr") auto
qed

lemma purchase_details_loyalty_down:
  "get_purchase_details (env_world erp_ok warehouse_loyalty_down 202) (PStr ''123'') [] =
   (Inr [(''total_discount'', PStr ''0''), (''total_paid'', PNum 20),
      (''payment_method'', PStr ''pix''), (''sub_total'', PNum 20), 
      (''items'', PList [PDict [(''item_name'', PStr ''Cafe''), (''item_quantity'', PNum 2),
      (''item_price'', PNum 10), (''total_item_price'', PNum 20)]])], [BqQuery (PurchaseDetailsQuery (PStr ''123''))])"
  by (simp add: get_purchase_details_def get_purchase_details_body_def bq_run_def monad_defs
       env_world_def warehouse_loyalty_down_def item_row_def item_detail_def summary_fields_def row_attr_def bindE_def dict_update_def)

subsection \<open>Frames from a given trace\<close>

lemma emits_from_only: "emits_only P m \<Longrightarrow> emits_from tr P m"
  by (simp add: emits_only_def emits_from_def)

lemma emits_from_returnM: "emits_from tr P (returnM x)"
  by (simp add: emits_from_def returnM_def)

lemma emits_from_liftE: "emits_from tr P (liftE r)"
  by (simp add: emits_from_def liftE_def)

lemma emits_from_emit: "P ev \<Longrightarrow> emits_from tr P (emit ev)"
  by (simp add: emits_from_def emit_def)

lemma emits_from_bindM:
  assumes m: "emits_from tr P m"
    and f: "\<And>x tr'. m tr = (Inr x, tr') \<Longrightarrow> emits_from tr' P (f x)"
  shows "emits_from tr P (bindM m f)"
proof -
  obtain evs where evs: "snd (m tr) = tr @ evs" "\<forall>ev\<in>set evs. P ev"
    using m unfolding emits_from_def by blast
  then obtain r where mtr: "m tr = (r, tr @ evs)"
    by (cases "m tr") simp
  show ?thesis
  proof (cases r)
    case (Inl e)
    then show ?thesis using mtr evs(2) by (auto simp: bindM_def emits_from_def)
  next
    case (Inr x)
    then obtain evs' where evs': "snd (f x (tr @ evs)) = (tr @ evs) @ evs'" "\<forall>ev\<in>set evs'. P ev"
      using f [of x "tr @ evs"] mtr unfolding emits_from_def by auto
    have "snd (bindM m f tr) = tr @ (evs @ evs')"
      using Inr mtr evs'(1) by (simp add: bindM_def)
    moreover have "\<forall>ev\<in>set (evs @ evs'). P ev"
      using evs(2) evs'(2) by auto
    ultimately show ?thesis unfolding emits_from_def by blast
  qed
qed

lemma emits_from_if:
  assumes "c \<Longrightarrow> emits_from tr P a" "\<not> c \<Longrightarrow> emits_from tr P b"
  shows "emits_from tr P (if c then a else b)"
  using assms by simp

lemma emits_from_catch_log:
  assumes "emits_only P m" "\<And>l s. P (Log l s)"
  shows "emits_from tr P (catchM m (\<lambda>e. thenM (emit (Log l s)) (returnM x)))"
  by (intro emits_from_only emits_only_intros assms)

lemmas emits_from_intros = emits_from_if emits_from_returnM emits_from_liftE emits_from_emit
  emits_from_bindM

lemma emits_from_catchM:
  assumes m: "emits_from tr P m"
    and h: "\<And>e tr'. m tr = (Inl e, tr') \<Longrightarrow> emits_from tr' P (h e)"
  shows "emits_from tr P (catchM m h)"
proof -
  obtain evs where evs: "snd (m tr) = tr @ evs" "\<forall>ev\<in>set evs. P ev"
    using m unfolding emits_from_def by blast
  then obtain r where mtr: "m tr = (r, tr @ evs)"
    by (cases "m tr") simp
  show ?thesis
  proof (cases r)
    case (Inr x)
    then show ?thesis using mtr evs(2) by (auto simp: catchM_def emits_from_def)
  next
    case (Inl e)
    then obtain evs' where evs': "snd (h e (tr @ evs)) = (tr @ evs) @ evs'" "\<forall>ev\<in>set evs'. P ev"
      using h [of e "tr @ evs"] mtr unfolding emits_from_def by auto
    have "snd (catchM m h tr) = tr @ (evs @ evs')"
      using Inl mtr evs'(1) by (simp add: catchM_def)
    moreover have "\<forall>ev\<in>set (evs @ evs'). P ev"
      using evs(2) evs'(2) by auto
    ultimately show ?thesis unfolding emits_from_def by blast
  qed
qed

lemma process_webhook_payload_from:
  assumes "emits_from tr P (pipeline env payload)" "\<And>l s. P (Log l s)"
  shows "\<exists>evs. process_webhook_payload env payload tr = (Inr (), tr @ evs) \<and>
           (\<forall>ev\<in>set evs. P ev)"
proof -
  have "emits_from tr P (process_webhook_payload env payload)"
    unfolding process_webhook_payload_def
    by (intro emits_from_catchM emits_from_emit assms)
  then obtain evs where "snd (process_webhook_payload env payload tr) = tr @ evs"
      "\<forall>ev\<in>set evs. P ev"
    unfolding emits_from_def by blast
  then show ?thesis
    using process_webhook_payload_never_raises [of env payload tr]
    by (cases "process_webhook_payload env payload tr") auto
qed

lemma without_fiscal_link_filter:
  assumes "\<forall>ev\<in>set evs. without_fiscal_link ev"
  shows "filter is_link_request evs = []"
proof -
  have "is_link_request ev \<Longrightarrow> \<not> without_fiscal_link ev" for ev
    by (induction ev rule: is_link_request.induct) simp_all
  with assms show ?thesis by (auto simp: filter_empty_conv)
qed

subsection \<open>Failure of the fiscal document\<close>

lemma aggregate_without_url:
  assumes "aggregate_email_data env c i e PNone n tr = (Inr data, tr1)"
  shows "map_of data ''nota_fiscal_url'' = None"
proof -
  obtain r0 t0 where p: "get_purchase_details env i tr = (r0, t0)"
    by (cases "get_purchase_details env i tr")
  obtain items where r0: "r0 = Inr items"
    using assms p by (cases r0) (auto simp: aggregate_email_data_def monad_defs)
  obtain v1 t1 where d: "get_daily_checkins env c t0 = (Inr [(''daily_checkins'', v1)], t1)"
    using daily_checkins_result by blast
  obtain v2 t2 where q: "get_quarter_spend env c t1 = (Inr [(''quarter_spend'', v2)], t2)"
    using quarter_spend_result by blast
  obtain v3 t3 where l: "get_lifetime_spend env c t2 = (Inr [(''total_spend'', v3)], t3)"
    using lifetime_spend_result by blast
  show ?thesis
    using assms p r0 d q l
    by (auto simp: aggregate_email_data_def monad_defs Let_def)
qed

lemma send_email_first:
  "\<exists>evs. send_email env d 0 tr = (Inr (), tr @ SgSend (build_message d (PStr TEST_EMAIL)) # evs)"
proof -
  obtain r t where a: "send_attempt env d (PStr TEST_EMAIL) tr = (r, t)"
    by (cases "send_attempt env d (PStr TEST_EMAIL) tr")
  then obtain l where t: "t = tr @ SgSend (build_message d (PStr TEST_EMAIL)) # l"
    by (auto simp: send_attempt_def Let_def split: sum.splits if_splits)
  show ?thesis
  proof (cases r)
    case (Inr u)
    then show ?thesis using a t
      by (subst send_email.simps) (simp add: Let_def TEST_MODE_def TEST_EMAIL_def)
  next
    case (Inl e)
    let ?t2 = "t @ [Log WARNING ''Retrying to send email'', Sleep (2 powi (0 + 1) * 30)]"
    obtain evs where "send_email env d (0 + 1) ?t2 = (Inr (), ?t2 @ evs)"
      using send_email_result [of "\<lambda>ev. True" d env "0 + 1" ?t2] by auto
    moreover have "send_email env d 0 tr = send_email env d (0 + 1) ?t2"
      using a Inl by (subst send_email.simps) (simp add: Let_def TEST_MODE_def TEST_EMAIL_def)
    ultimately show ?thesis using t by simp
  qed
qed

lemma pipeline_frame_nfce_failed:
  assumes id: "lookup_path [''dados'', ''id''] payload = Some dados_id"
    and fail: "generate_nfce env dados_id tr = (Inl e, tr1)"
  shows "emits_from tr without_fiscal_link (pipeline env payload)"
  unfolding pipeline_def
  apply (intro emits_from_intros emits_from_catch_log generate_nfce_frame
           emits_from_only [OF get_client_email_frame]
           emits_from_only [OF aggregate_email_data_frame]
           emits_from_only [OF send_email_frame]
           get_nota_fiscal_link_frame)
  apply simp_all
  using lookup_path_id [OF id] fail
  apply (auto simp: monad_defs build_message_def dest: aggregate_without_url)
  done

subsection \<open>The customer lookup\<close>

lemma first_email_miss:
  assumes "\<forall>p\<in>set rows. \<exists>v. row_attr p ''email'' = Inr v \<and> \<not> truthy v"
  shows "first_email rows = Inr None"
  using assms by (induction rows) auto

lemma first_email_hit:
  assumes "\<forall>p\<in>set pre. \<exists>v. row_attr p ''email'' = Inr v \<and> \<not> truthy v"
    and "row_attr r ''email'' = Inr e" "truthy e"
  shows "first_email (pre @ r # post) = Inr (Some e)"
  using assms by (induction pre) auto

lemma get_client_email_hit:
  assumes "bq_query env tr (ContatosEmailQuery c) = Inr rows" "first_email rows = Inr (Some e)"
  shows "get_client_email env c tr = (Inr e, tr @ [BqQuery (ContatosEmailQuery c)])"
  using assms by (simp add: get_client_email_def bq_run_def monad_defs)

lemma get_client_email_miss:
  assumes "bq_query env tr (ContatosEmailQuery c) = Inr rows" "first_email rows = Inr None"
    and "get_client_email_from_tinyerp env c
           (tr @ [BqQuery (ContatosEmailQuery c),
                  Log WARNING ''No email found in BigQuery. Falling back to TinyERP.'']) = (Inr v, tr1)"
  shows "get_client_email env c tr = (Inr v, tr1)"
  using assms by (simp add: get_client_email_def bq_run_def monad_defs)

lemma get_client_email_starts_with_query:
  "\<exists>evs. snd (get_client_email env c tr) = tr @ BqQuery (ContatosEmailQuery c) # evs"
proof (cases "bq_query env tr (ContatosEmailQuery c)")
  case (Inl e)
  then show ?thesis by (simp add: get_client_email_def bq_run_def monad_defs)
next
  case (Inr rows)
  let ?rest = "catchM
       (bindM (liftE (first_email rows)) (\<lambda>found.
            case found of
              Some email \<Rightarrow> returnM email
            | None \<Rightarrow>
                thenM (emit (Log WARNING ''No email found in BigQuery. Falling back to TinyERP.''))
                  (get_client_email_from_tinyerp env c)))
       (\<lambda>e. thenM (emit (Log ERROR
                (if e = BadRequest then ''BigQuery BadRequest Error while fetching email''
                 else ''Error fetching email'')))
              (raiseM e))"
  have eq: "get_client_email env c tr = ?rest (tr @ [BqQuery (ContatosEmailQuery c)])"
    using Inr by (simp add: get_client_email_def bq_run_def bindM_def catchM_def)
  have "emits_only (\<lambda>ev. True) ?rest"
    by (intro emits_only_intros get_client_email_from_tinyerp_frame) simp_all
  then obtain evs where "snd (?rest (tr @ [BqQuery (ContatosEmailQuery c)])) =
      (tr @ [BqQuery (ContatosEmailQuery c)]) @ evs"
    using emits_onlyD by blast
  with eq show ?thesis by simp
qed

lemma lookup_path3:
  assumes "lookup_path [a, b, c] v = Some x"
  obtains kvs dk ck where "v = PDict kvs" "map_of kvs a = Some (PDict dk)"
    "map_of dk b = Some (PDict ck)" "map_of ck c = Some x"
proof -
  from assms obtain kvs where v: "v = PDict kvs" by (cases v) auto
  with assms obtain d where d: "map_of kvs a = Some d" "lookup_path [b, c] d = Some x"
    by (auto split: option.splits)
  from d(2) obtain dk ck where "d = PDict dk" "map_of dk b = Some (PDict ck)" "map_of ck c = Some x"
    by (rule lookup_path2)
  with v d that show thesis by blast
qed

lemma pipeline_frame_no_email:
  assumes c: "lookup_path [''dados'', ''cliente'', ''cpfCnpj''] payload = Some cpf"
    and miss: "\<And>tr' v. fst (get_client_email env cpf tr') = Inr v \<Longrightarrow> \<not> truthy v"
  shows "emits_only (\<lambda>ev. \<not> is_send ev) (pipeline env payload)"
  unfolding pipeline_def
  apply (intro emits_only_intros generate_nfce_frame get_client_email_frame
           get_nota_fiscal_link_frame aggregate_email_data_frame)
  apply simp_all
  using c miss
  apply (auto elim!: lookup_path3 simp: liftE_def bindE_def)
  done

lemmas eval_defs = make_api_call_def make_api_call_body_def requests_get_def monad_defs
  validate_json_payload_def retorno_field_def erro_message_def bindE_def py_and_def
  bq_run_def row_attr_def env_world_def

subsection \<open>What \<open>generate_nfce\<close> returns\<close>

lemma lookup_path4:
  assumes "lookup_path [a, b, c, d] v = Some x"
  obtains kvs bk ck dk where "v = PDict kvs" "map_of kvs a = Some (PDict bk)"
    "map_of bk b = Some (PDict ck)" "map_of ck c = Some (PDict dk)" "map_of dk d = Some x"
proof -
  from assms obtain kvs where v: "v = PDict kvs" by (cases v) auto
  with assms obtain w where w: "map_of kvs a = Some w" "lookup_path [b, c, d] w = Some x"
    by (auto split: option.splits)
  from w(2) obtain bk ck dk where "w = PDict bk" "map_of bk b = Some (PDict ck)"
      "map_of ck c = Some (PDict dk)" "map_of dk d = Some x"
    by (rule lookup_path3)
  with v w that show thesis by blast
qed

lemma generate_nfce_returns_id:
  assumes "make_api_call env (GerarNotaFiscalPedido i) tr = (Inr response, tr1)"
    and "lookup_path [''retorno'', ''registros'', ''registro'', ''idNotaFiscal''] response = Some v"
  shows "generate_nfce env i tr = (Inr v, tr1)"
  using assms
  by (auto elim!: lookup_path4 simp: generate_nfce_def monad_defs py_and_def bindE_def)

lemma generate_nfce_without_registro:
  assumes "make_api_call env (GerarNotaFiscalPedido i) tr = (Inr (PDict kvs), tr1)"
    and "map_of kvs ''retorno'' = None \<or>
         (\<exists>rk. map_of kvs ''retorno'' = Some (PDict rk) \<and>
            (map_of rk ''registros'' = None \<or>
             (\<exists>gk. map_of rk ''registros'' = Some (PDict gk) \<and> map_of gk ''registro'' = None)))"
  shows "generate_nfce env i tr =
           (Inl (ValidationError ''NFCe generation response is missing expected fields.''), tr1)"
  using assms
  by (auto simp: generate_nfce_def monad_defs py_and_def bindE_def)

lemma generate_nfce_without_id:
  assumes "make_api_call env (GerarNotaFiscalPedido i) tr = (Inr response, tr1)"
    and "lookup_path [''retorno'', ''registros'', ''registro''] response = Some (PDict gk)"
    and "map_of gk ''idNotaFiscal'' = None"
  shows "generate_nfce env i tr = (Inl KeyError, tr1)"
  using assms
  by (auto elim!: lookup_path3 simp: generate_nfce_def monad_defs py_and_def bindE_def)

subsection \<open>The end-to-end scenario\<close>

lemma end_to_end_scenario:
  "process_webhook_payload (env_world erp_ok warehouse_ok 202) payload_ana [] =
     (Inr (),
      [HttpGet (GerarNotaFiscalPedido (PStr ''123'')),
       BqQuery (ContatosEmailQuery (PStr ''111'')),
       HttpGet (NotaFiscalObterLink (PStr ''55'')),
       BqQuery (PurchaseDetailsQuery (PStr ''123'')),
       BqQuery (DailyCheckinsQuery (PStr ''111'')),
       BqQuery (QuarterSpendQuery (PStr ''111'')),
       BqQuery (LifetimeSpendQuery (PStr ''111'')),
       SgSend (build_message (email_data_ana @ [(''nota_fiscal_url'', PStr ''http://x/55'')])
                 (PStr TEST_EMAIL))])"
  by (simp add: process_webhook_payload_def pipeline_def generate_nfce_def get_nota_fiscal_link_def
        get_client_email_def aggregate_email_data_def get_purchase_details_def
        get_purchase_details_body_def get_daily_checkins_def get_quarter_spend_def
        get_lifetime_spend_def eval_defs item_row_def item_detail_def summary_fields_def
        dict_update_def dict_get_def email_data_ana_def payload_ana_def Let_def
        send_email.simps send_attempt_def TEST_MODE_def TEST_EMAIL_def)

subsection \<open>When the lookup finds no email\<close>

lemma api_body_ok_response:
  assumes "make_api_call_body env u tr = (Inr response, tr1)"
  shows "http_get env tr u = Inr response"
  using assms
  by (cases "http_get env tr u")
     (auto simp: make_api_call_body_def requests_get_def monad_defs split: sum.splits)

lemma api_ok_response:
  assumes "make_api_call env u tr = (Inr response, tr1)"
  shows "\<exists>tr'. http_get env tr' u = Inr response"
  using retry_ok [OF assms [unfolded make_api_call_def]] api_body_ok_response by blast

lemma contact_email_of_dict:
  assumes "py_get c ''contato'' (PDict []) = Inr contato"
    and "py_get contato ''email'' PNone = Inr e" "truthy e"
  shows "lookup_path [''contato'', ''email''] c = Some e"
proof -
  obtain ck where c: "c = PDict ck" using assms(1) by (cases c) auto
  obtain ek where k: "contato = PDict ek" using assms(2) by (cases contato) auto
  have "map_of ek ''email'' = Some e"
    using assms(2,3) k by (cases "map_of ek ''email''") auto
  moreover have "map_of ck ''contato'' = Some (PDict ek)"
    using assms(1) c k \<open>map_of ek ''email'' = Some e\<close>
    by (cases "map_of ck ''contato''") auto
  ultimately show ?thesis using c by simp
qed

lemma tinyerp_result:
  assumes "make_api_call env (ContatosPesquisa c) tr = (Inr response, tr1)"
    and "retorno_field response ''contatos'' (PList []) = Inr (PList (x # xs))"
    and "py_get x ''contato'' (PDict []) = Inr contato"
    and "py_get contato ''email'' PNone = Inr e"
  shows "get_client_email_from_tinyerp env c tr =
           (if truthy e then (Inr e, tr1)
            else (Inr PNone, tr1 @ [Log WARNING ''No email found in TinyERP'']))"
  using assms
  by (simp add: get_client_email_from_tinyerp_def monad_defs retorno_field_def bindE_def
       split: sum.splits)

lemma tinyerp_no_contacts:
  assumes "make_api_call env (ContatosPesquisa c) tr = (Inr response, tr1)"
    and "retorno_field response ''contatos'' (PList []) = Inr contatos" "\<not> truthy contatos"
  shows "get_client_email_from_tinyerp env c tr =
           (Inr PNone, tr1 @ [Log WARNING ''No contact information found in TinyERP''])"
  using assms
  by (simp add: get_client_email_from_tinyerp_def monad_defs retorno_field_def bindE_def
       split: sum.splits)

lemma tinyerp_never_email:
  assumes miss: "\<And>tr' response. http_get env tr' (ContatosPesquisa c) = Inr response \<Longrightarrow>
                   first_contact_email response = None"
    and res: "fst (get_client_email_from_tinyerp env c tr) = Inr v"
  shows "\<not> truthy v"
proof (cases "make_api_call env (ContatosPesquisa c) tr")
  case (Pair r tr1)
  show ?thesis
  proof (cases r)
    case (Inl e)
    then show ?thesis using res Pair
      by (simp add: get_client_email_from_tinyerp_def monad_defs)
  next
    case (Inr response)
    then have none: "first_contact_email response = None"
      using api_ok_response Pair miss by blast
    show ?thesis
    proof (cases "retorno_field response ''contatos'' (PList [])")
      case (Inl e)
      then show ?thesis using res Pair Inr
        by (simp add: get_client_email_from_tinyerp_def monad_defs retorno_field_def)
    next
      case cts: (Inr contatos)
      show ?thesis
      proof (cases "truthy contatos")
        case False
        then show ?thesis
          using tinyerp_no_contacts [OF Pair [unfolded Inr] cts] res by simp
      next
        case True
        show ?thesis
        proof (cases "bindE (bindE (py_index0 contatos) (\<lambda>c. py_get c ''contato'' (PDict [])))
                        (\<lambda>contato. py_get contato ''email'' PNone)")
          case (Inl e)
          then show ?thesis using res Pair Inr cts True
            by (simp add: get_client_email_from_tinyerp_def monad_defs retorno_field_def)
        next
          case em: (Inr email)
          have "\<not> truthy email"
          proof
            assume t: "truthy email"
            obtain x where x: "py_index0 contatos = Inr x"
              using em by (cases "py_index0 contatos") (auto simp: bindE_def)
            obtain contato where k: "py_get x ''contato'' (PDict []) = Inr contato"
              using em x by (cases "py_get x ''contato'' (PDict [])") (auto simp: bindE_def)
            have e: "py_get contato ''email'' PNone = Inr email"
              using em x k by (simp add: bindE_def)
            obtain ck where xd: "x = PDict ck" using k by (cases x) auto
            obtain xs where "contatos = PList (x # xs)"
              using x xd by (induction contatos rule: py_index0.induct) auto
            then have "first_contact_email response = Some email"
              using cts contact_email_of_dict [OF k e t] t
              by (simp add: first_contact_email_def)
            with none show False by simp
          qed
          then show ?thesis using res Pair Inr cts True em
            by (simp add: get_client_email_from_tinyerp_def monad_defs retorno_field_def)
        qed
      qed
    qed
  qed
qed

lemma first_email_never:
  assumes "\<forall>p\<in>set rows. \<forall>v. row_attr p ''email'' = Inr v \<longrightarrow> \<not> truthy v"
  shows "first_email rows = Inr None \<or> (\<exists>e. first_email rows = Inl e)"
  using assms by (induction rows) (auto split: sum.splits)

lemma get_client_email_never:
  assumes wh: "\<And>tr' rows. bq_query env tr' (ContatosEmailQuery c) = Inr rows \<Longrightarrow>
                 \<forall>p\<in>set rows. \<forall>v. row_attr p ''email'' = Inr v \<longrightarrow> \<not> truthy v"
    and erp: "\<And>tr' response. http_get env tr' (ContatosPesquisa c) = Inr response \<Longrightarrow>
                first_contact_email response = None"
    and res: "fst (get_client_email env c tr) = Inr v"
  shows "\<not> truthy v"
proof (cases "bq_query env tr (ContatosEmailQuery c)")
  case (Inl e)
  then show ?thesis using res by (simp add: get_client_email_def bq_run_def monad_defs)
next
  case (Inr rows)
  from first_email_never [OF wh [OF Inr]] show ?thesis
  proof
    assume n: "first_email rows = Inr None"
    let ?t = "tr @ [BqQuery (ContatosEmailQuery c),
                    Log WARNING ''No email found in BigQuery. Falling back to TinyERP.'']"
    obtain r t where f: "get_client_email_from_tinyerp env c ?t = (r, t)"
      by (cases "get_client_email_from_tinyerp env c ?t")
    show ?thesis
    proof (cases r)
      case (Inl e)
      then show ?thesis using res Inr n f
        by (simp add: get_client_email_def bq_run_def monad_defs)
    next
      case v': (Inr v')
      then have "get_client_email env c tr = (Inr v', t)"
        using get_client_email_miss [OF Inr n] f by simp
      moreover have "\<not> truthy v'"
        using tinyerp_never_email [of env c ?t v'] erp f v' by simp
      ultimately show ?thesis using res by simp
    qed
  next
    assume "\<exists>e. first_email rows = Inl e"
    then show ?thesis using res Inr
      by (auto simp: get_client_email_def bq_run_def monad_defs)
  qed
qed

subsection \<open>Bodies that are not dictionaries\<close>

lemma validate_not_a_dict:
  assumes "(\<forall>kvs. body \<noteq> PDict kvs) \<or>
           (\<exists>kvs r. body = PDict kvs \<and> map_of kvs ''retorno'' = Some r \<and> (\<forall>rk. r \<noteq> PDict rk))"
  shows "validate_json_payload body = Inl AttributeError"
  using assms
proof
  assume "\<forall>kvs. body \<noteq> PDict kvs"
  then show ?thesis
    by (cases body) (simp_all add: validate_json_payload_def retorno_field_def bindE_def)
next
  assume "\<exists>kvs r. body = PDict kvs \<and> map_of kvs ''retorno'' = Some r \<and> (\<forall>rk. r \<noteq> PDict rk)"
  then obtain kvs r where b: "body = PDict kvs" "map_of kvs ''retorno'' = Some r"
      "\<forall>rk. r \<noteq> PDict rk" by blast
  then show ?thesis
    by (cases r) (simp_all add: validate_json_payload_def retorno_field_def bindE_def)
qed

lemma api_not_a_dict:
  assumes "http_get env tr u = Inr body"
    and "(\<forall>kvs. body \<noteq> PDict kvs) \<or>
         (\<exists>kvs r. body = PDict kvs \<and> map_of kvs ''retorno'' = Some r \<and> (\<forall>rk. r \<noteq> PDict rk))"
  shows "make_api_call env u tr = (Inl AttributeError, tr @ [HttpGet u, Log ERROR ''Unexpected error''])"
  using api_body_invalid [OF assms(1) validate_not_a_dict [OF assms(2)]]
  by (simp add: api_no_retry)

section \<open>The claims\<close>

text \<open>
  C4. A payload without the field \<open>dados.id\<close>: \<open>process_webhook_payload\<close> returns normally
  after logging one ERROR record, and does nothing else: no ERP request, no warehouse query,
  no email.
\<close>

theorem payload_without_id_only_logs:
  assumes "lookup_path [''dados'', ''id''] payload = None"
  shows "\<exists>msg\<in>set [''Payload missing 'dados' key.'', ''Missing 'dados.id' in payload.'',
            ''Unexpected error in payload processing''].
          process_webhook_payload env payload tr = (Inr (), tr @ [Log ERROR msg])"
proof (cases payload)
  case (PDict kvs)
  show ?thesis
  proof (cases "map_of kvs ''dados''")
    case None
    then show ?thesis using PDict
      by (simp add: process_webhook_payload_def pipeline_def monad_defs bindE_def)
  next
    case (Some d)
    then show ?thesis using PDict assms
      by (cases d) (simp_all add: process_webhook_payload_def pipeline_def monad_defs bindE_def
           split: option.splits)
  qed
qed (simp_all add: process_webhook_payload_def pipeline_def monad_defs bindE_def)

theorem payload_without_id_only_logs_witness:
  "lookup_path [''dados'', ''id''] payload_without_id = None \<and>
   (\<exists>msg\<in>set [''Payload missing 'dados' key.'', ''Missing 'dados.id' in payload.'',
            ''Unexpected error in payload processing''].
      process_webhook_payload (env_body PNone) payload_without_id [] =
        (Inr (), [] @ [Log ERROR msg]))"
proof -
  have h: "lookup_path [''dados'', ''id''] payload_without_id = None"
    by (simp add: payload_without_id_def)
  show ?thesis
    using h payload_without_id_only_logs [OF h, of "env_body PNone" "[]"] by blast
qed

text \<open>
  C1. Classification of a decoded body by its embedded status. With status '1', error code
  '1' and an \<open>erros\<close> entry that yields a message (absent or empty, or a list whose first
  element is a dictionary with the key \<open>erro\<close>), \<open>make_api_call\<close> raises InvalidTokenError
  after one request and no sleep; with status '2' it raises ValidationError after one
  request; with status '3' it returns the body as it is.
\<close>

theorem gateway_classification:
  assumes "http_get env tr u = Inr body"
  shows "(retorno_field body ''status_processamento'' PNone = Inr (PStr ''1'') \<and>
          retorno_field body ''codigo_erro'' (PStr []) = Inr (PStr ''1'') \<and>
          retorno_field body ''erros'' (PList []) = Inr erros \<and> erro_message erros = Inr m \<longrightarrow>
            make_api_call env u tr =
              (Inl (InvalidTokenError m), tr @ [HttpGet u, Log ERROR ''Unexpected error''])) \<and>
         (retorno_field body ''status_processamento'' PNone = Inr (PStr ''2'') \<longrightarrow>
            make_api_call env u tr =
              (Inl (ValidationError ''Invalid query parameter.''),
               tr @ [HttpGet u, Log ERROR ''Payload validation failed''])) \<and>
         (retorno_field body ''status_processamento'' PNone = Inr (PStr ''3'') \<longrightarrow>
            make_api_call env u tr = (Inr body, tr @ [HttpGet u]))"
proof (intro conjI impI)
  assume a: "retorno_field body ''status_processamento'' PNone = Inr (PStr ''1'') \<and>
          retorno_field body ''codigo_erro'' (PStr []) = Inr (PStr ''1'') \<and>
          retorno_field body ''erros'' (PList []) = Inr erros \<and> erro_message erros = Inr m"
  then have "validate_json_payload body = Inl (InvalidTokenError m)"
    using validate_1 [of body "PStr ''1''" erros m] by simp
  from api_body_invalid [OF assms this]
  show "make_api_call env u tr =
              (Inl (InvalidTokenError m), tr @ [HttpGet u, Log ERROR ''Unexpected error''])"
    by (simp add: api_no_retry)
next
  assume "retorno_field body ''status_processamento'' PNone = Inr (PStr ''2'')"
  from api_body_invalid [OF assms validate_2 [OF this]]
  show "make_api_call env u tr =
              (Inl (ValidationError ''Invalid query parameter.''),
               tr @ [HttpGet u, Log ERROR ''Payload validation failed''])"
    by (simp add: api_no_retry)
next
  assume "retorno_field body ''status_processamento'' PNone = Inr (PStr ''3'')"
  from api_ok [OF assms validate_3 [OF this]]
  show "make_api_call env u tr = (Inr body, tr @ [HttpGet u])" .
qed

theorem gateway_classification_witness:
  "make_api_call (env_body body_token_invalid) contact_search [] =
     (Inl (InvalidTokenError (PStr ''token invalido'')),
      [HttpGet contact_search, Log ERROR ''Unexpected error'']) \<and>
   make_api_call (env_body (erp_body (PStr ''2'') PNone PNone)) contact_search [] =
     (Inl (ValidationError ''Invalid query parameter.''),
      [HttpGet contact_search, Log ERROR ''Payload validation failed'']) \<and>
   make_api_call (env_body (erp_body (PStr ''3'') PNone PNone)) contact_search [] =
     (Inr (erp_body (PStr ''3'') PNone PNone), [HttpGet contact_search])"
  using gateway_classification [where env = "env_body body_token_invalid" and tr = "[]"
          and u = contact_search and body = body_token_invalid
          and erros = "PList [PDict [(''erro'', PStr ''token invalido'')]]"
          and m = "PStr ''token invalido''"]
        gateway_classification [where env = "env_body (erp_body (PStr ''2'') PNone PNone)"
          and tr = "[]" and u = contact_search and body = "erp_body (PStr ''2'') PNone PNone"]
        gateway_classification [where env = "env_body (erp_body (PStr ''3'') PNone PNone)"
          and tr = "[]" and u = contact_search and body = "erp_body (PStr ''3'') PNone PNone"]
  by (simp add: env_body_def erp_body_def body_token_invalid_def retorno_field_def
        erro_message_def bindE_def)

text \<open>
  The claim as stated fails on a body with status '1' and error code '1' whose \<open>erros\<close>
  list holds a dictionary without the key \<open>erro\<close>: the lookup raises KeyError.
\<close>

theorem invalid_token_counterexample:
  "retorno_field body_erros_malformed ''status_processamento'' PNone = Inr (PStr ''1'') \<and>
   retorno_field body_erros_malformed ''codigo_erro'' (PStr []) = Inr (PStr ''1'') \<and>
   make_api_call (env_body body_erros_malformed) contact_search [] =
     (Inl KeyError, [HttpGet contact_search, Log ERROR ''Unexpected error''])"
  by (simp add: make_api_call_def make_api_call_body_def requests_get_def monad_defs
        env_body_def erp_body_def body_erros_malformed_def validate_json_payload_def
        retorno_field_def erro_message_def bindE_def)

text \<open>
  C2. A URL whose every response has status '1', an error code other than '1' and an
  \<open>erros\<close> entry that yields a message: \<open>make_api_call\<close> makes exactly four requests, sleeps
  between consecutive requests only (three sleeps, none after the fourth request), each for
  the time \<open>wait_exponential\<close> gives, which is 30 for the first and lies between the floor 30
  and the cap 187.5 for the others, and then raises RetryError around the last
  RetryableError.
\<close>

theorem retryable_error_four_attempts:
  assumes "\<And>tr'. \<exists>body c erros m.
       http_get env tr' u = Inr body \<and>
       retorno_field body ''status_processamento'' PNone = Inr (PStr ''1'') \<and>
       retorno_field body ''codigo_erro'' (PStr []) = Inr c \<and> c \<noteq> PStr ''1'' \<and>
       retorno_field body ''erros'' (PList []) = Inr erros \<and> erro_message erros = Inr m"
  shows "\<exists>m evs. make_api_call env u tr = (Inl (RetryError (RetryableError m)), tr @ evs) \<and>
           actions evs =
             [HttpGet u, Sleep (wait_exponential (5/2) 30 (375/2) 1),
              HttpGet u, Sleep (wait_exponential (5/2) 30 (375/2) 2),
              HttpGet u, Sleep (wait_exponential (5/2) 30 (375/2) 3),
              HttpGet u] \<and>
           wait_exponential (5/2) 30 (375/2) 1 = 30 \<and>
           30 \<le> wait_exponential (5/2) 30 (375/2) 2 \<and> wait_exponential (5/2) 30 (375/2) 2 \<le> 375/2 \<and>
           30 \<le> wait_exponential (5/2) 30 (375/2) 3 \<and> wait_exponential (5/2) 30 (375/2) 3 \<le> 375/2"
proof -
  have "\<exists>m. make_api_call_body env u tr' =
             (Inl (RetryableError m), tr' @ [HttpGet u, Log ERROR ''Unexpected error''])" for tr'
  proof -
    obtain body c erros m where b: "http_get env tr' u = Inr body"
       "retorno_field body ''status_processamento'' PNone = Inr (PStr ''1'')"
       "retorno_field body ''codigo_erro'' (PStr []) = Inr c" "c \<noteq> PStr ''1''"
       "retorno_field body ''erros'' (PList []) = Inr erros" "erro_message erros = Inr m"
      using assms by blast
    have "validate_json_payload body = Inl (RetryableError m)"
      using validate_1 [OF b(2,3,5,6)] b(4) by simp
    from api_body_invalid [OF b(1) this] show ?thesis by auto
  qed
  from api_exhausted [OF this, of tr] obtain m where
    "make_api_call env u tr =
           (Inl (RetryError (RetryableError m)),
            tr @ [HttpGet u, Log ERROR ''Unexpected error'', Sleep (wait_exponential (5/2) 30 (375/2) 1),
                  HttpGet u, Log ERROR ''Unexpected error'', Sleep (wait_exponential (5/2) 30 (375/2) 2),
                  HttpGet u, Log ERROR ''Unexpected error'', Sleep (wait_exponential (5/2) 30 (375/2) 3),
                  HttpGet u, Log ERROR ''Unexpected error''])" by blast
  then show ?thesis
    using wait_exponential_bounds [of 30 "375/2" "5/2"] api_waits(1)
    by (auto simp: actions_def)
qed

theorem retryable_error_four_attempts_witness:
  "\<exists>m evs. make_api_call (env_body body_api_blocked) contact_search [] =
             (Inl (RetryError (RetryableError m)), [] @ evs) \<and>
           actions evs =
             [HttpGet contact_search, Sleep (wait_exponential (5/2) 30 (375/2) 1),
              HttpGet contact_search, Sleep (wait_exponential (5/2) 30 (375/2) 2),
              HttpGet contact_search, Sleep (wait_exponential (5/2) 30 (375/2) 3),
              HttpGet contact_search]"
proof -
  have h: "\<exists>body c erros m.
       http_get (env_body body_api_blocked) tr' contact_search = Inr body \<and>
       retorno_field body ''status_processamento'' PNone = Inr (PStr ''1'') \<and>
       retorno_field body ''codigo_erro'' (PStr []) = Inr c \<and> c \<noteq> PStr ''1'' \<and>
       retorno_field body ''erros'' (PList []) = Inr erros \<and> erro_message erros = Inr m" for tr'
    by (simp add: env_body_def erp_body_def body_api_blocked_def retorno_field_def
          erro_message_def bindE_def)
  show ?thesis
    using retryable_error_four_attempts [OF h, of "[]"] by blast
qed

text \<open>
  The claim as stated fails: the three sleeps last 30 units each (the products 2.5, 5 and
  10 lie under the floor), and there is no fourth sleep.
\<close>

theorem backoff_delays_counterexample:
  "actions (snd (make_api_call (env_body body_api_blocked) contact_search [])) =
     [HttpGet contact_search, Sleep 30, HttpGet contact_search, Sleep 30,
      HttpGet contact_search, Sleep 30, HttpGet contact_search] \<and>
   filter is_sleep (snd (make_api_call (env_body body_api_blocked) contact_search [])) \<noteq>
     [Sleep 30, Sleep 75, Sleep (375/2), Sleep (375/2)]"
  by (simp add: make_api_call_def make_api_call_body_def requests_get_def monad_defs
        env_body_def erp_body_def body_api_blocked_def validate_json_payload_def
        retorno_field_def erro_message_def bindE_def wait_exponential_def actions_def)

text \<open>
  C6. A generate-document response that validates and holds \<open>retorno.registros.registro\<close>
  without the field \<open>idNotaFiscal\<close>: \<open>generate_nfce\<close> raises KeyError, not ValidationError.
\<close>

theorem generate_nfce_missing_id_raises_KeyError:
  "generate_nfce (env_body body_registro_without_id) (PStr ''123'') [] =
     (Inl KeyError, [HttpGet (GerarNotaFiscalPedido (PStr ''123''))])"
  by (simp add: generate_nfce_def make_api_call_def make_api_call_body_def requests_get_def
        monad_defs env_body_def body_registro_without_id_def validate_json_payload_def
        retorno_field_def py_and_def bindE_def)

text \<open>
  C9. When every submission fails (an exception or a status outside 200..299),
  \<open>send_email\<close> submits three times, sleeps 60 before the second and 120 before the third
  submission, logs the ERROR record of the exhausted retries last, and returns normally.
\<close>

theorem send_email_exhausts_quietly:
  assumes "\<And>tr' m s. sg_send env tr' m = Inr s \<Longrightarrow> s < 200 \<or> 300 \<le> s"
  shows "\<exists>evs. send_email env email_data 0 tr = (Inr (), tr @ evs) \<and>
           actions evs =
             [SgSend (build_message email_data (PStr TEST_EMAIL)), Sleep 60,
              SgSend (build_message email_data (PStr TEST_EMAIL)), Sleep 120,
              SgSend (build_message email_data (PStr TEST_EMAIL))] \<and>
           last evs = Log ERROR ''Max retry attempts reached for sending email''"
proof -
  let ?m = "build_message email_data (PStr TEST_EMAIL)"
  have att: "\<exists>e logs. send_attempt env email_data (PStr TEST_EMAIL) t =
                (Inl e, t @ SgSend ?m # logs) \<and> (\<forall>ev\<in>set logs. is_log ev)" for t
    using send_attempt_fails assms by blast
  obtain e1 l1 where a1: "send_attempt env email_data (PStr TEST_EMAIL) tr =
      (Inl e1, tr @ SgSend ?m # l1)" "\<forall>ev\<in>set l1. is_log ev"
    using att by blast
  let ?t2 = "(tr @ SgSend ?m # l1) @ [Log WARNING ''Retrying to send email'', Sleep 60]"
  obtain e2 l2 where a2: "send_attempt env email_data (PStr TEST_EMAIL) ?t2 =
      (Inl e2, ?t2 @ SgSend ?m # l2)" "\<forall>ev\<in>set l2. is_log ev"
    using att by blast
  let ?t3 = "(?t2 @ SgSend ?m # l2) @ [Log WARNING ''Retrying to send email'', Sleep 120]"
  obtain e3 l3 where a3: "send_attempt env email_data (PStr TEST_EMAIL) ?t3 =
      (Inl e3, ?t3 @ SgSend ?m # l3)" "\<forall>ev\<in>set l3. is_log ev"
    using att by blast
  have s3: "send_email env email_data 2 ?t3 =
      (Inr (), (?t3 @ SgSend ?m # l3) @ [Log ERROR ''Max retry attempts reached for sending email''])"
    using a3(1) by (subst send_email.simps) (simp add: Let_def TEST_MODE_def TEST_EMAIL_def)
  have s2: "send_email env email_data 1 ?t2 = send_email env email_data 2 ?t3"
    using a2(1) by (subst send_email.simps) (simp add: Let_def TEST_MODE_def TEST_EMAIL_def)
  have s1: "send_email env email_data 0 tr = send_email env email_data 1 ?t2"
    using a1(1) by (subst send_email.simps) (simp add: Let_def TEST_MODE_def TEST_EMAIL_def)
  let ?evs = "SgSend ?m # l1 @ [Log WARNING ''Retrying to send email'', Sleep 60] @
              SgSend ?m # l2 @ [Log WARNING ''Retrying to send email'', Sleep 120] @
              SgSend ?m # l3 @ [Log ERROR ''Max retry attempts reached for sending email'']"
  have "send_email env email_data 0 tr = (Inr (), tr @ ?evs)"
    using s1 s2 s3 by simp
  moreover have "actions ?evs = [SgSend ?m, Sleep 60, SgSend ?m, Sleep 120, SgSend ?m]"
    using a1(2) a2(2) a3(2) by (simp add: actions_def)
  moreover have "last ?evs = Log ERROR ''Max retry attempts reached for sending email''"
    by simp
  ultimately show ?thesis by blast
qed

theorem send_email_exhausts_quietly_witness:
  "\<exists>evs. send_email (env_send_status 500) [] 0 [] = (Inr (), [] @ evs) \<and>
      actions evs =
        [SgSend (build_message [] (PStr TEST_EMAIL)), Sleep 60,
         SgSend (build_message [] (PStr TEST_EMAIL)), Sleep 120,
         SgSend (build_message [] (PStr TEST_EMAIL))] \<and>
      last evs = Log ERROR ''Max retry attempts reached for sending email''"
proof -
  have h: "sg_send (env_send_status 500) tr' m = Inr s \<Longrightarrow> s < 200 \<or> 300 \<le> s" for tr' m s
    by (auto simp: env_send_status_def)
  show ?thesis
    using h send_email_exhausts_quietly [where env = "env_send_status 500"
            and email_data = "[]" and tr = "[]"]
    by blast
qed

text \<open>
  C3. When the items query for the transaction id returns no rows on every attempt,
  \<open>get_purchase_details\<close> queries four times, sleeping 30, 60 and 90 in between, and raises
  RetryError around the exception "Purchase details not found after retries."; and
  \<open>process_webhook_payload\<close>, on a payload with that id, returns normally without any
  submission to the email provider.
\<close>

theorem empty_items_abort:
  assumes "\<And>tr'. bq_query env tr' (PurchaseDetailsQuery dados_id) = Inr []"
  shows "(\<exists>evs. get_purchase_details env dados_id tr =
            (Inl (RetryError (OtherException ''Purchase details not found after retries.'')),
             tr @ evs) \<and>
            actions evs = [BqQuery (PurchaseDetailsQuery dados_id), Sleep 30,
                           BqQuery (PurchaseDetailsQuery dados_id), Sleep 60,
                           BqQuery (PurchaseDetailsQuery dados_id), Sleep 90,
                           BqQuery (PurchaseDetailsQuery dados_id)]) \<and>
         (lookup_path [''dados'', ''id''] payload = Some dados_id \<longrightarrow>
            (\<exists>evs. process_webhook_payload env payload tr = (Inr (), tr @ evs) \<and>
               filter is_send evs = []))"
proof (intro conjI impI)
  show "\<exists>evs. get_purchase_details env dados_id tr =
            (Inl (RetryError (OtherException ''Purchase details not found after retries.'')),
             tr @ evs) \<and>
            actions evs = [BqQuery (PurchaseDetailsQuery dados_id), Sleep 30,
                           BqQuery (PurchaseDetailsQuery dados_id), Sleep 60,
                           BqQuery (PurchaseDetailsQuery dados_id), Sleep 90,
                           BqQuery (PurchaseDetailsQuery dados_id)]"
    by (rule purchase_details_empty [OF assms])
next
  assume p: "lookup_path [''dados'', ''id''] payload = Some dados_id"
  have "emits_only (\<lambda>ev. \<not> is_send ev) (pipeline env payload)"
    by (rule pipeline_frame_no_items [OF assms p])
  then obtain evs where "process_webhook_payload env payload tr = (Inr (), tr @ evs)"
      "\<forall>ev\<in>set evs. \<not> is_send ev"
    using process_webhook_payload_result [of "\<lambda>ev. \<not> is_send ev" env payload tr] by auto
  then show "\<exists>evs. process_webhook_payload env payload tr = (Inr (), tr @ evs) \<and>
               filter is_send evs = []"
    by (auto simp: filter_empty_conv)
qed

theorem empty_items_abort_witness:
  "(\<exists>evs. get_purchase_details
             (env_world erp_ok (warehouse_ok (PurchaseDetailsQuery (PStr ''123'') := Inr [])) 202)
             (PStr ''123'') [] =
            (Inl (RetryError (OtherException ''Purchase details not found after retries.'')),
             [] @ evs) \<and>
            actions evs = [BqQuery (PurchaseDetailsQuery (PStr ''123'')), Sleep 30,
                           BqQuery (PurchaseDetailsQuery (PStr ''123'')), Sleep 60,
                           BqQuery (PurchaseDetailsQuery (PStr ''123'')), Sleep 90,
                           BqQuery (PurchaseDetailsQuery (PStr ''123''))]) \<and>
   (\<exists>evs. process_webhook_payload
             (env_world erp_ok (warehouse_ok (PurchaseDetailsQuery (PStr ''123'') := Inr [])) 202)
             payload_ana [] = (Inr (), [] @ evs) \<and>
          filter is_send evs = [])"
  using empty_items_abort [where env = "env_world erp_ok
            (warehouse_ok (PurchaseDetailsQuery (PStr ''123'') := Inr [])) 202"
          and dados_id = "PStr ''123''" and payload = payload_ana and tr = "[]"]
  by (simp add: env_world_def payload_ana_def)

text \<open>
  C8. When the items query succeeds, \<open>aggregate_email_data\<close> returns an email payload whose
  \<open>items\<close> are those of the purchase summary, a non-empty list; and each of the fields
  \<open>daily_checkins\<close>, \<open>quarter_spend\<close> and \<open>lifetime_spend\<close> is 0 as soon as its own query
  fails, whatever the other queries do.
\<close>

theorem loyalty_defaults:
  assumes "get_purchase_details env dados_id tr = (Inr items, tr1)"
  shows "\<exists>data tr2. aggregate_email_data env cpf dados_id email url name tr = (Inr data, tr2) \<and>
     map_of data ''items'' = map_of items ''items'' \<and>
     (\<exists>its. map_of data ''items'' = Some (PList its) \<and> its \<noteq> []) \<and>
     ((\<forall>tr'. \<exists>e. bq_query env tr' (DailyCheckinsQuery cpf) = Inl e) \<longrightarrow>
        map_of data ''daily_checkins'' = Some (PNum 0)) \<and>
     ((\<forall>tr'. \<exists>e. bq_query env tr' (QuarterSpendQuery cpf) = Inl e) \<longrightarrow>
        map_of data ''quarter_spend'' = Some (PNum 0)) \<and>
     ((\<forall>tr'. \<exists>e. bq_query env tr' (LifetimeSpendQuery cpf) = Inl e) \<longrightarrow>
        map_of data ''lifetime_spend'' = Some (PNum 0))"
proof -
  obtain its where its: "map_of items ''items'' = Some (PList its)" "its \<noteq> []"
    using purchase_details_items [OF assms] by blast
  obtain v1 t1 where d: "get_daily_checkins env cpf tr1 = (Inr [(''daily_checkins'', v1)], t1)"
     "(\<exists>e. bq_query env tr1 (DailyCheckinsQuery cpf) = Inl e) \<longrightarrow> v1 = PNum 0"
    using daily_checkins_result by blast
  obtain v2 t2 where q: "get_quarter_spend env cpf t1 = (Inr [(''quarter_spend'', v2)], t2)"
     "(\<exists>e. bq_query env t1 (QuarterSpendQuery cpf) = Inl e) \<longrightarrow> v2 = PNum 0"
    using quarter_spend_result by blast
  obtain v3 t3 where l: "get_lifetime_spend env cpf t2 = (Inr [(''total_spend'', v3)], t3)"
     "(\<exists>e. bq_query env t2 (LifetimeSpendQuery cpf) = Inl e) \<longrightarrow> v3 = PNum 0"
    using lifetime_spend_result by blast
  show ?thesis
    using assms its d q l
    by (simp add: aggregate_email_data_def monad_defs Let_def dict_get_def update_conv')
qed

theorem loyalty_defaults_witness:
  "\<exists>data tr2. aggregate_email_data (env_world erp_ok warehouse_loyalty_down 202)
        (PStr ''111'') (PStr ''123'') (PStr ''ana@x.com'') PNone (PStr ''Ana'') [] = (Inr data, tr2) \<and>
     map_of data ''items'' = Some (PList [PDict [(''item_name'', PStr ''Cafe''),
        (''item_quantity'', PNum 2), (''item_price'', PNum 10), (''total_item_price'', PNum 20)]]) \<and>
     map_of data ''daily_checkins'' = Some (PNum 0) \<and>
     map_of data ''quarter_spend'' = Some (PNum 0) \<and>
     map_of data ''lifetime_spend'' = Some (PNum 0)"
proof -
  have f: "\<forall>tr'. \<exists>e. bq_query (env_world erp_ok warehouse_loyalty_down 202) tr'
              (DailyCheckinsQuery (PStr ''111'')) = Inl e"
      "\<forall>tr'. \<exists>e. bq_query (env_world erp_ok warehouse_loyalty_down 202) tr'
              (QuarterSpendQuery (PStr ''111'')) = Inl e"
      "\<forall>tr'. \<exists>e. bq_query (env_world erp_ok warehouse_loyalty_down 202) tr'
              (LifetimeSpendQuery (PStr ''111'')) = Inl e"
    by (simp_all add: env_world_def warehouse_loyalty_down_def)
  show ?thesis
    using loyalty_defaults [OF purchase_details_loyalty_down, where cpf = "PStr ''111''" and email = "PStr ''ana@x.com''"
         and url = PNone and name = "PStr ''Ana''"] f
    by auto
qed

text \<open>
  C5. When \<open>generate_nfce\<close> fails, with whatever exception, \<open>process_webhook_payload\<close>
  returns normally, never requests the document's link, and submits no message whose
  template data has the key \<open>nota_fiscal_url\<close>; and when the customer has a tax id, the
  lookup yields an email and the aggregation succeeds, the aggregation runs without a link,
  its email payload has no key \<open>nota_fiscal_url\<close>, and that payload is submitted to the
  email provider.
\<close>

theorem nfce_failure_is_not_fatal:
  assumes id: "lookup_path [''dados'', ''id''] payload = Some dados_id"
    and fail: "generate_nfce env dados_id tr = (Inl e, tr_nfce)"
  shows "(\<exists>evs. process_webhook_payload env payload tr = (Inr (), tr @ evs) \<and>
            filter is_link_request evs = [] \<and>
            (\<forall>m. SgSend m \<in> set evs \<longrightarrow>
                 map_of (dynamic_template_data m) ''nota_fiscal_url'' = None)) \<and>
         (truthy dados_id \<and>
          lookup_path [''dados'', ''cliente''] payload = Some cliente_info \<and>
          py_get cliente_info ''nome'' (PStr ''Unknown Client'') = Inr cliente_nome \<and>
          py_get cliente_info ''cpfCnpj'' PNone = Inr cpf \<and> cpf \<noteq> PNone \<and>
          get_client_email env cpf (tr_nfce @ [Log ERROR ''Error during NFCe generation'']) =
            (Inr client_email, tr_email) \<and> truthy client_email \<and>
          aggregate_email_data env cpf dados_id client_email PNone cliente_nome tr_email =
            (Inr email_data, tr_data) \<longrightarrow>
            map_of email_data ''nota_fiscal_url'' = None \<and>
            (\<exists>evs. process_webhook_payload env payload tr =
               (Inr (), tr_data @ SgSend (build_message email_data (PStr TEST_EMAIL)) # evs)))"
proof (intro conjI impI)
  obtain evs where evs: "process_webhook_payload env payload tr = (Inr (), tr @ evs)"
      "\<forall>ev\<in>set evs. without_fiscal_link ev"
    using process_webhook_payload_from [OF pipeline_frame_nfce_failed [OF id fail]]
    by auto
  have "filter is_link_request evs = []"
    by (rule without_fiscal_link_filter [OF evs(2)])
  moreover have "\<forall>m. SgSend m \<in> set evs \<longrightarrow>
      map_of (dynamic_template_data m) ''nota_fiscal_url'' = None"
    using evs(2) by fastforce
  ultimately show "\<exists>evs. process_webhook_payload env payload tr = (Inr (), tr @ evs) \<and>
            filter is_link_request evs = [] \<and>
            (\<forall>m. SgSend m \<in> set evs \<longrightarrow>
                 map_of (dynamic_template_data m) ''nota_fiscal_url'' = None)"
    using evs(1) by blast
next
  assume a: "truthy dados_id \<and>
          lookup_path [''dados'', ''cliente''] payload = Some cliente_info \<and>
          py_get cliente_info ''nome'' (PStr ''Unknown Client'') = Inr cliente_nome \<and>
          py_get cliente_info ''cpfCnpj'' PNone = Inr cpf \<and> cpf \<noteq> PNone \<and>
          get_client_email env cpf (tr_nfce @ [Log ERROR ''Error during NFCe generation'']) =
            (Inr client_email, tr_email) \<and> truthy client_email \<and>
          aggregate_email_data env cpf dados_id client_email PNone cliente_nome tr_email =
            (Inr email_data, tr_data)"
  then show "map_of email_data ''nota_fiscal_url'' = None"
    using aggregate_without_url by blast
  have c: "bindE (py_item payload ''dados'') (\<lambda>d. py_get d ''cliente'' (PDict [])) =
             Inr cliente_info"
    using a by (auto elim!: lookup_path2 simp: bindE_def)
  have "pipeline env payload tr = send_email env email_data 0 tr_data"
    using a c lookup_path_id [OF id] fail
    by (simp add: pipeline_def monad_defs)
  moreover obtain evs where "send_email env email_data 0 tr_data =
      (Inr (), tr_data @ SgSend (build_message email_data (PStr TEST_EMAIL)) # evs)"
    using send_email_first by blast
  ultimately show "\<exists>evs. process_webhook_payload env payload tr =
      (Inr (), tr_data @ SgSend (build_message email_data (PStr TEST_EMAIL)) # evs)"
    by (auto simp: process_webhook_payload_def catchM_def)
qed

theorem nfce_failure_is_not_fatal_witness:
  "(\<exists>evs. process_webhook_payload (env_world erp_nfce_rejected warehouse_ok 202) payload_ana [] =
            (Inr (), [] @ evs) \<and> filter is_link_request evs = []) \<and>
   map_of email_data_ana ''nota_fiscal_url'' = None \<and>
   (\<exists>evs. process_webhook_payload (env_world erp_nfce_rejected warehouse_ok 202) payload_ana [] =
            (Inr (), trace_ana @ SgSend (build_message email_data_ana (PStr TEST_EMAIL)) # evs))"
proof -
  let ?E = "env_world erp_nfce_rejected warehouse_ok 202"
  let ?g = "HttpGet (GerarNotaFiscalPedido (PStr ''123''))"
  have id: "lookup_path [''dados'', ''id''] payload_ana = Some (PStr ''123'')"
    and cl: "lookup_path [''dados'', ''cliente''] payload_ana =
               Some (PDict [(''nome'', PStr ''Ana''), (''cpfCnpj'', PStr ''111'')])"
    by (simp_all add: payload_ana_def)
  have fail: "generate_nfce ?E (PStr ''123'') [] =
      (Inl (ValidationError ''Invalid query parameter.''),
       [?g, Log ERROR ''Payload validation failed''])"
    by (simp add: generate_nfce_def eval_defs erp_nfce_rejected_def erp_body_def)
  have email: "get_client_email ?E (PStr ''111'')
       ([?g, Log ERROR ''Payload validation failed''] @ [Log ERROR ''Error during NFCe generation'']) =
      (Inr (PStr ''ana@x.com''),
       [?g, Log ERROR ''Payload validation failed'', Log ERROR ''Error during NFCe generation'',
        BqQuery (ContatosEmailQuery (PStr ''111''))])"
    by (simp add: get_client_email_def eval_defs)
  have data: "aggregate_email_data ?E (PStr ''111'') (PStr ''123'') (PStr ''ana@x.com'') PNone
       (PStr ''Ana'')
       [?g, Log ERROR ''Payload validation failed'', Log ERROR ''Error during NFCe generation'',
        BqQuery (ContatosEmailQuery (PStr ''111''))] = (Inr email_data_ana, trace_ana)"
    by (simp add: aggregate_email_data_def get_purchase_details_def get_purchase_details_body_def
          get_daily_checkins_def get_quarter_spend_def get_lifetime_spend_def eval_defs
          item_row_def item_detail_def summary_fields_def dict_update_def dict_get_def
          email_data_ana_def trace_ana_def Let_def)
  show ?thesis
    using nfce_failure_is_not_fatal [OF id fail,
            where cliente_info = "PDict [(''nome'', PStr ''Ana''), (''cpfCnpj'', PStr ''111'')]"
              and cliente_nome = "PStr ''Ana''" and cpf = "PStr ''111''"
              and client_email = "PStr ''ana@x.com''"
              and tr_email = "[?g, Log ERROR ''Payload validation failed'',
                    Log ERROR ''Error during NFCe generation'',
                    BqQuery (ContatosEmailQuery (PStr ''111''))]"
              and email_data = email_data_ana and tr_data = trace_ana]
          cl email data
    by auto
qed

text \<open>
  C10. A body that is a dictionary whose \<open>retorno\<close> entry is missing or is a dictionary, and
  whose status is none of the strings '1', '2', '3' (the envelope missing, the status field
  missing, or any other value, a number included): validation raises nothing and
  \<open>make_api_call\<close> returns the body as it is after a single request.
\<close>

theorem unknown_status_is_success:
  assumes "http_get env tr u = Inr body" and "body = PDict kvs"
  shows "(map_of kvs ''retorno'' = None \<longrightarrow>
            validate_json_payload body = Inr () \<and>
            make_api_call env u tr = (Inr body, tr @ [HttpGet u])) \<and>
         (map_of kvs ''retorno'' = Some (PDict rk) \<and>
          map_of rk ''status_processamento'' = None \<longrightarrow>
            validate_json_payload body = Inr () \<and>
            make_api_call env u tr = (Inr body, tr @ [HttpGet u])) \<and>
         (map_of kvs ''retorno'' = Some (PDict rk) \<and>
          map_of rk ''status_processamento'' = Some s \<and>
          s \<noteq> PStr ''1'' \<and> s \<noteq> PStr ''2'' \<and> s \<noteq> PStr ''3'' \<longrightarrow>
            validate_json_payload body = Inr () \<and>
            make_api_call env u tr = (Inr body, tr @ [HttpGet u]))"
proof (intro conjI impI)
  assume "map_of kvs ''retorno'' = None"
  then have "retorno_field body ''status_processamento'' PNone = Inr PNone"
    using assms(2) by (simp add: retorno_field_def bindE_def)
  then show "validate_json_payload body = Inr ()"
    by (rule validate_other) simp_all
  then show "make_api_call env u tr = (Inr body, tr @ [HttpGet u])"
    using api_ok assms(1) by blast
next
  assume "map_of kvs ''retorno'' = Some (PDict rk) \<and> map_of rk ''status_processamento'' = None"
  then have "retorno_field body ''status_processamento'' PNone = Inr PNone"
    using assms(2) by (simp add: retorno_field_def bindE_def)
  then show "validate_json_payload body = Inr ()"
    by (rule validate_other) simp_all
  then show "make_api_call env u tr = (Inr body, tr @ [HttpGet u])"
    using api_ok assms(1) by blast
next
  assume a: "map_of kvs ''retorno'' = Some (PDict rk) \<and>
          map_of rk ''status_processamento'' = Some s \<and>
          s \<noteq> PStr ''1'' \<and> s \<noteq> PStr ''2'' \<and> s \<noteq> PStr ''3''"
  then have "retorno_field body ''status_processamento'' PNone = Inr s"
    using assms(2) by (simp add: retorno_field_def bindE_def)
  then show "validate_json_payload body = Inr ()"
    using a validate_other [of body s] by blast
  then show "make_api_call env u tr = (Inr body, tr @ [HttpGet u])"
    using api_ok assms(1) by blast
qed

theorem unknown_status_is_success_witness:
  "make_api_call (env_body (PDict [])) contact_search [] =
     (Inr (PDict []), [HttpGet contact_search]) \<and>
   make_api_call (env_body (PDict [(''retorno'', PDict [])])) contact_search [] =
     (Inr (PDict [(''retorno'', PDict [])]), [HttpGet contact_search]) \<and>
   make_api_call (env_body (PDict [(''retorno'', PDict [(''status_processamento'', PNum 3)])]))
       contact_search [] =
     (Inr (PDict [(''retorno'', PDict [(''status_processamento'', PNum 3)])]),
      [HttpGet contact_search])"
  using unknown_status_is_success [where env = "env_body (PDict [])" and tr = "[]"
          and u = contact_search and body = "PDict []" and kvs = "[]"]
        unknown_status_is_success [where env = "env_body (PDict [(''retorno'', PDict [])])"
          and tr = "[]" and u = contact_search and body = "PDict [(''retorno'', PDict [])]"
          and kvs = "[(''retorno'', PDict [])]" and rk = "[]"]
        unknown_status_is_success [where
          env = "env_body (PDict [(''retorno'', PDict [(''status_processamento'', PNum 3)])])"
          and tr = "[]" and u = contact_search
          and body = "PDict [(''retorno'', PDict [(''status_processamento'', PNum 3)])]"
          and kvs = "[(''retorno'', PDict [(''status_processamento'', PNum 3)])]"
          and rk = "[(''status_processamento'', PNum 3)]" and s = "PNum 3"]
  by (simp add: env_body_def)

text \<open>
  The claim as stated fails on a body whose \<open>retorno\<close> entry is null: it has no status
  field, and the first line of \<open>validate_json_payload\<close> raises AttributeError.
\<close>

theorem null_envelope_counterexample:
  "lookup_path [''retorno'', ''status_processamento''] (PDict [(''retorno'', PNone)]) = None \<and>
   validate_json_payload (PDict [(''retorno'', PNone)]) = Inl AttributeError \<and>
   make_api_call (env_body (PDict [(''retorno'', PNone)])) contact_search [] =
     (Inl AttributeError, [HttpGet contact_search, Log ERROR ''Unexpected error''])"
  by (simp add: make_api_call_def make_api_call_body_def requests_get_def monad_defs
        env_body_def validate_json_payload_def retorno_field_def bindE_def)

text \<open>
  C7. \<open>get_client_email\<close> starts with the warehouse query; it returns the email of the first
  row whose email is non-empty, without any ERP request; when no row has a non-empty email
  it asks the ERP's contact search and returns the first contact's email if that is
  non-empty, and \<open>None\<close> when the first contact has no email or the search has no contact;
  and when, for the payload's tax id, the warehouse never has a row with a non-empty email
  and the contact search never has a first contact with a non-empty email,
  \<open>process_webhook_payload\<close> returns normally without any submission to the email
  provider.
\<close>

theorem customer_lookup:
  "(\<exists>evs. snd (get_client_email env cpf tr) = tr @ BqQuery (ContatosEmailQuery cpf) # evs) \<and>
   (bq_query env tr (ContatosEmailQuery cpf) = Inr (pre @ r # post) \<and>
    (\<forall>p\<in>set pre. \<exists>v. row_attr p ''email'' = Inr v \<and> \<not> truthy v) \<and>
    row_attr r ''email'' = Inr e \<and> truthy e \<longrightarrow>
      get_client_email env cpf tr = (Inr e, tr @ [BqQuery (ContatosEmailQuery cpf)])) \<and>
   (bq_query env tr (ContatosEmailQuery cpf) = Inr rows \<and>
    (\<forall>p\<in>set rows. \<exists>v. row_attr p ''email'' = Inr v \<and> \<not> truthy v) \<and>
    make_api_call env (ContatosPesquisa cpf)
      (tr @ [BqQuery (ContatosEmailQuery cpf),
             Log WARNING ''No email found in BigQuery. Falling back to TinyERP.'']) =
      (Inr response, tr_erp) \<longrightarrow>
      (retorno_field response ''contatos'' (PList []) = Inr (PList (c # cs)) \<and>
       py_get c ''contato'' (PDict []) = Inr contato \<and>
       py_get contato ''email'' PNone = Inr e' \<longrightarrow>
         get_client_email env cpf tr =
           (if truthy e' then (Inr e', tr_erp)
            else (Inr PNone, tr_erp @ [Log WARNING ''No email found in TinyERP'']))) \<and>
      (retorno_field response ''contatos'' (PList []) = Inr contatos \<and> \<not> truthy contatos \<longrightarrow>
         get_client_email env cpf tr =
           (Inr PNone, tr_erp @ [Log WARNING ''No contact information found in TinyERP'']))) \<and>
   (lookup_path [''dados'', ''cliente'', ''cpfCnpj''] payload = Some cpf \<and>
    (\<forall>tr' rs. bq_query env tr' (ContatosEmailQuery cpf) = Inr rs \<longrightarrow>
       (\<forall>p\<in>set rs. \<forall>v. row_attr p ''email'' = Inr v \<longrightarrow> \<not> truthy v)) \<and>
    (\<forall>tr' resp. http_get env tr' (ContatosPesquisa cpf) = Inr resp \<longrightarrow>
       first_contact_email resp = None) \<longrightarrow>
      (\<exists>evs. process_webhook_payload env payload tr = (Inr (), tr @ evs) \<and>
             filter is_send evs = []))"
proof (intro conjI impI)
  show "\<exists>evs. snd (get_client_email env cpf tr) = tr @ BqQuery (ContatosEmailQuery cpf) # evs"
    by (rule get_client_email_starts_with_query)
next
  assume "bq_query env tr (ContatosEmailQuery cpf) = Inr (pre @ r # post) \<and>
    (\<forall>p\<in>set pre. \<exists>v. row_attr p ''email'' = Inr v \<and> \<not> truthy v) \<and>
    row_attr r ''email'' = Inr e \<and> truthy e"
  then show "get_client_email env cpf tr = (Inr e, tr @ [BqQuery (ContatosEmailQuery cpf)])"
    using get_client_email_hit first_email_hit by blast
next
  let ?t = "tr @ [BqQuery (ContatosEmailQuery cpf),
                  Log WARNING ''No email found in BigQuery. Falling back to TinyERP.'']"
  assume a: "bq_query env tr (ContatosEmailQuery cpf) = Inr rows \<and>
    (\<forall>p\<in>set rows. \<exists>v. row_attr p ''email'' = Inr v \<and> \<not> truthy v) \<and>
    make_api_call env (ContatosPesquisa cpf) ?t = (Inr response, tr_erp)"
  assume b: "retorno_field response ''contatos'' (PList []) = Inr (PList (c # cs)) \<and>
       py_get c ''contato'' (PDict []) = Inr contato \<and>
       py_get contato ''email'' PNone = Inr e'"
  have "get_client_email_from_tinyerp env cpf ?t =
          (if truthy e' then (Inr e', tr_erp)
           else (Inr PNone, tr_erp @ [Log WARNING ''No email found in TinyERP'']))"
    using a b tinyerp_result by blast
  then show "get_client_email env cpf tr =
          (if truthy e' then (Inr e', tr_erp)
           else (Inr PNone, tr_erp @ [Log WARNING ''No email found in TinyERP'']))"
    using a get_client_email_miss [of env tr cpf rows] first_email_miss [of rows]
    by (cases "truthy e'") simp_all
next
  let ?t = "tr @ [BqQuery (ContatosEmailQuery cpf),
                  Log WARNING ''No email found in BigQuery. Falling back to TinyERP.'']"
  assume a: "bq_query env tr (ContatosEmailQuery cpf) = Inr rows \<and>
    (\<forall>p\<in>set rows. \<exists>v. row_attr p ''email'' = Inr v \<and> \<not> truthy v) \<and>
    make_api_call env (ContatosPesquisa cpf) ?t = (Inr response, tr_erp)"
  assume "retorno_field response ''contatos'' (PList []) = Inr contatos \<and> \<not> truthy contatos"
  then have "get_client_email_from_tinyerp env cpf ?t =
      (Inr PNone, tr_erp @ [Log WARNING ''No contact information found in TinyERP''])"
    using a tinyerp_no_contacts by blast
  then show "get_client_email env cpf tr =
      (Inr PNone, tr_erp @ [Log WARNING ''No contact information found in TinyERP''])"
    using a get_client_email_miss first_email_miss by blast
next
  assume a: "lookup_path [''dados'', ''cliente'', ''cpfCnpj''] payload = Some cpf \<and>
    (\<forall>tr' rs. bq_query env tr' (ContatosEmailQuery cpf) = Inr rs \<longrightarrow>
       (\<forall>p\<in>set rs. \<forall>v. row_attr p ''email'' = Inr v \<longrightarrow> \<not> truthy v)) \<and>
    (\<forall>tr' resp. http_get env tr' (ContatosPesquisa cpf) = Inr resp \<longrightarrow>
       first_contact_email resp = None)"
  have "\<not> truthy v" if "fst (get_client_email env cpf tr') = Inr v" for tr' v
    using get_client_email_never [of env cpf tr' v] a that by blast
  then have "emits_only (\<lambda>ev. \<not> is_send ev) (pipeline env payload)"
    using pipeline_frame_no_email [of payload cpf env] a by blast
  then obtain evs where "process_webhook_payload env payload tr = (Inr (), tr @ evs)"
      "\<forall>ev\<in>set evs. \<not> is_send ev"
    using process_webhook_payload_result [of "\<lambda>ev. \<not> is_send ev" env payload tr] by auto
  then show "\<exists>evs. process_webhook_payload env payload tr = (Inr (), tr @ evs) \<and>
               filter is_send evs = []"
    by (auto simp: filter_empty_conv)
qed

theorem customer_lookup_witness:
  "get_client_email (env_world erp_ok warehouse_ok 202) (PStr ''111'') [] =
     (Inr (PStr ''ana@x.com''), [BqQuery (ContatosEmailQuery (PStr ''111''))]) \<and>
   get_client_email (env_world erp_ok warehouse_no_contact 202) (PStr ''111'') [] =
     (Inr (PStr ''ana@erp.com''),
      [BqQuery (ContatosEmailQuery (PStr ''111'')),
       Log WARNING ''No email found in BigQuery. Falling back to TinyERP.'',
       HttpGet (ContatosPesquisa (PStr ''111''))]) \<and>
   get_client_email (env_world erp_contact_without_email warehouse_no_contact 202)
       (PStr ''111'') [] =
     (Inr PNone,
      [BqQuery (ContatosEmailQuery (PStr ''111'')),
       Log WARNING ''No email found in BigQuery. Falling back to TinyERP.'',
       HttpGet (ContatosPesquisa (PStr ''111'')),
       Log WARNING ''No email found in TinyERP'']) \<and>
   get_client_email (env_world erp_no_contact warehouse_no_contact 202) (PStr ''111'') [] =
     (Inr PNone,
      [BqQuery (ContatosEmailQuery (PStr ''111'')),
       Log WARNING ''No email found in BigQuery. Falling back to TinyERP.'',
       HttpGet (ContatosPesquisa (PStr ''111'')),
       Log WARNING ''No contact information found in TinyERP'']) \<and>
   (\<exists>evs. process_webhook_payload (env_world erp_contact_without_email warehouse_no_contact 202)
            payload_ana [] = (Inr (), [] @ evs) \<and> filter is_send evs = [])"
proof -
  let ?q = "ContatosEmailQuery (PStr ''111'')"
  let ?w = "Log WARNING ''No email found in BigQuery. Falling back to TinyERP.''"
  let ?u = "ContatosPesquisa (PStr ''111'')"
  let ?with = "PDict [(''retorno'', PDict [(''status_processamento'', PStr ''3''),
        (''contatos'', PList [PDict [(''contato'', PDict [(''email'', PStr ''ana@erp.com'')])]])])]"
  let ?without = "PDict [(''retorno'', PDict [(''status_processamento'', PStr ''3''),
        (''contatos'', PList [PDict [(''contato'', PDict [(''nome'', PStr ''Ana'')])]])])]"
  let ?none = "PDict [(''retorno'', PDict [(''status_processamento'', PStr ''3''),
                                         (''contatos'', PList [])])]"
  have hit: "bq_query (env_world erp_ok warehouse_ok 202) [] ?q =
               Inr ([] @ [(''email'', PStr ''ana@x.com'')] # [])"
      "row_attr [(''email'', PStr ''ana@x.com'')] ''email'' = Inr (PStr ''ana@x.com'')"
    by (simp_all add: env_world_def row_attr_def)
  have miss: "bq_query (env_world erp_ok warehouse_no_contact 202) [] ?q = Inr []"
      "bq_query (env_world erp_contact_without_email warehouse_no_contact 202) [] ?q = Inr []"
      "bq_query (env_world erp_no_contact warehouse_no_contact 202) [] ?q = Inr []"
    by (simp_all add: env_world_def warehouse_no_contact_def)
  have api1: "make_api_call (env_world erp_ok warehouse_no_contact 202) ?u [BqQuery ?q, ?w] =
      (Inr ?with, [BqQuery ?q, ?w, HttpGet ?u])"
    by (simp add: eval_defs)
  have api2: "make_api_call (env_world erp_contact_without_email warehouse_no_contact 202) ?u
       [BqQuery ?q, ?w] = (Inr ?without, [BqQuery ?q, ?w, HttpGet ?u])"
    by (simp add: eval_defs erp_contact_without_email_def)
  have api3: "make_api_call (env_world erp_no_contact warehouse_no_contact 202) ?u
       [BqQuery ?q, ?w] = (Inr ?none, [BqQuery ?q, ?w, HttpGet ?u])"
    by (simp add: eval_defs erp_no_contact_def)
  have p: "lookup_path [''dados'', ''cliente'', ''cpfCnpj''] payload_ana = Some (PStr ''111'')"
    by (simp add: payload_ana_def)
  have wh: "\<forall>tr' rs. bq_query (env_world erp_contact_without_email warehouse_no_contact 202) tr' ?q =
               Inr rs \<longrightarrow> (\<forall>p\<in>set rs. \<forall>v. row_attr p ''email'' = Inr v \<longrightarrow> \<not> truthy v)"
    by (auto simp: env_world_def warehouse_no_contact_def)
  have erp: "\<forall>tr' resp. http_get (env_world erp_contact_without_email warehouse_no_contact 202)
               tr' ?u = Inr resp \<longrightarrow> first_contact_email resp = None"
    by (auto simp: env_world_def erp_contact_without_email_def first_contact_email_def
          retorno_field_def bindE_def)
  show ?thesis
    using customer_lookup [where env = "env_world erp_ok warehouse_ok 202"
            and cpf = "PStr ''111''" and tr = "[]" and pre = "[]"
            and r = "[(''email'', PStr ''ana@x.com'')]" and post = "[]"
            and e = "PStr ''ana@x.com''"]
          customer_lookup [where env = "env_world erp_ok warehouse_no_contact 202"
            and cpf = "PStr ''111''" and tr = "[]" and rows = "[]" and response = ?with
            and tr_erp = "[BqQuery ?q, ?w, HttpGet ?u]"
            and c = "PDict [(''contato'', PDict [(''email'', PStr ''ana@erp.com'')])]"
            and cs = "[]" and contato = "PDict [(''email'', PStr ''ana@erp.com'')]"
            and e' = "PStr ''ana@erp.com''"]
          customer_lookup [where env = "env_world erp_contact_without_email warehouse_no_contact 202"
            and cpf = "PStr ''111''" and tr = "[]" and rows = "[]" and response = ?without
            and tr_erp = "[BqQuery ?q, ?w, HttpGet ?u]"
            and c = "PDict [(''contato'', PDict [(''nome'', PStr ''Ana'')])]"
            and cs = "[]" and contato = "PDict [(''nome'', PStr ''Ana'')]"
            and e' = PNone and payload = payload_ana]
          customer_lookup [where env = "env_world erp_no_contact warehouse_no_contact 202"
            and cpf = "PStr ''111''" and tr = "[]" and rows = "[]" and response = ?none
            and tr_erp = "[BqQuery ?q, ?w, HttpGet ?u]" and contatos = "PList []"]
          hit miss api1 api2 api3 p wh erp
    by (simp add: retorno_field_def bindE_def)
qed

end
